theory Spec2Isabelle
  imports Main "HOL-Library.Sublist" "HOL-Library.AList"
begin

section \<open>JavaScript strings\<close>

text \<open>
  A string is the list of its UTF-16 code units.  The strings of the model (\<open>string\<close>,
  that is \<open>char list\<close>) are those whose code units are below U+0100, a \<open>char\<close> being
  the code unit with that number (ASCII and the Latin-1 supplement).  On these strings
  the built-in methods the code calls are written out in full:
  \<^item> \<open>toLowerCase\<close> maps \<open>A\<close> to \<open>Z\<close>, U+00C0 to U+00D6 and U+00D8 to U+00DE to the
    code unit 32 higher and leaves every other code unit as it is;
  \<^item> \<open>trim\<close> removes white space and line terminators from both ends, which below
    U+0100 are TAB, LF, VT, FF, CR, SP and the no-break space U+00A0;
  \<^item> \<open>includes\<close> is the contiguous-substring test.

  \<open>toUpperCase\<close> leaves this range: it maps \<open>a\<close> to \<open>z\<close>, U+00E0 to U+00F6 and
  U+00F8 to U+00FE to the code unit 32 lower, the sharp s U+00DF to the two code units
  \<open>SS\<close>, the micro sign U+00B5 to U+039C and U+00FF to U+0178.  Its result, and every
  string built from it, is therefore a list of code-unit numbers (\<open>ustring\<close>);
  \<open>units\<close> reads a \<open>string\<close> as such a list.
\<close>

definition upper_letters :: string where
  "upper_letters =
     ''ABCDEFGHIJKLMNOPQRSTUVWXYZ'' @
       [CHR 0xC0, CHR 0xC1, CHR 0xC2, CHR 0xC3, CHR 0xC4, CHR 0xC5, CHR 0xC6, CHR 0xC7,
        CHR 0xC8, CHR 0xC9, CHR 0xCA, CHR 0xCB, CHR 0xCC, CHR 0xCD, CHR 0xCE, CHR 0xCF,
        CHR 0xD0, CHR 0xD1, CHR 0xD2, CHR 0xD3, CHR 0xD4, CHR 0xD5, CHR 0xD6, CHR 0xD8,
        CHR 0xD9, CHR 0xDA, CHR 0xDB, CHR 0xDC, CHR 0xDD, CHR 0xDE]"

definition lower_letters :: string where
  "lower_letters =
     ''abcdefghijklmnopqrstuvwxyz'' @
       [CHR 0xE0, CHR 0xE1, CHR 0xE2, CHR 0xE3, CHR 0xE4, CHR 0xE5, CHR 0xE6, CHR 0xE7,
        CHR 0xE8, CHR 0xE9, CHR 0xEA, CHR 0xEB, CHR 0xEC, CHR 0xED, CHR 0xEE, CHR 0xEF,
        CHR 0xF0, CHR 0xF1, CHR 0xF2, CHR 0xF3, CHR 0xF4, CHR 0xF5, CHR 0xF6, CHR 0xF8,
        CHR 0xF9, CHR 0xFA, CHR 0xFB, CHR 0xFC, CHR 0xFD, CHR 0xFE]"

definition toLowerCase_char :: "char \<Rightarrow> char" where
  "toLowerCase_char c =
     (case map_of (zip upper_letters lower_letters) c of Some l \<Rightarrow> l | None \<Rightarrow> c)"

definition toLowerCase :: "string \<Rightarrow> string" where
  "toLowerCase s = map toLowerCase_char s"

type_synonym ustring = "nat list"

definition units :: "string \<Rightarrow> ustring" where
  "units s = map of_char s"

definition toUpperCase_char :: "char \<Rightarrow> ustring" where
  "toUpperCase_char c =
     (let n = (of_char c :: nat) in
      if 97 \<le> n \<and> n \<le> 122 then [n - 32]
      else if 224 \<le> n \<and> n \<le> 254 \<and> n \<noteq> 247 then [n - 32]
      else if n = 223 then [83, 83]
      else if n = 181 then [924]
      else if n = 255 then [376]
      else [n])"

definition toUpperCase :: "string \<Rightarrow> ustring" where
  "toUpperCase s = concat (map toUpperCase_char s)"

definition is_js_space :: "char \<Rightarrow> bool" where
  "is_js_space c =
     (c \<in> set [CHR 0x09, CHR 0x0A, CHR 0x0B, CHR 0x0C, CHR 0x0D, CHR '' '', CHR 0xA0])"

definition trim :: "string \<Rightarrow> string" where
  "trim s = rev (dropWhile is_js_space (rev (dropWhile is_js_space s)))"

text \<open>\<open>s.includes(t)\<close>: does \<open>t\<close> occur in \<open>s\<close> as a contiguous substring?\<close>

fun starts_with :: "string \<Rightarrow> string \<Rightarrow> bool" where
  "starts_with s [] = True"
| "starts_with [] (b # t) = False"
| "starts_with (a # s) (b # t) = (a = b \<and> starts_with s t)"

fun str_includes :: "string \<Rightarrow> string \<Rightarrow> bool" where
  "str_includes [] t = (t = [])"
| "str_includes (a # s) t = (starts_with (a # s) t \<or> str_includes s t)"

text \<open>\<open>s.charAt(0)\<close> and \<open>s.slice(1)\<close>; both are the empty string on the empty string.\<close>

definition charAt0 :: "string \<Rightarrow> string" where
  "charAt0 s = take 1 s"

definition slice1 :: "string \<Rightarrow> string" where
  "slice1 s = drop 1 s"

text \<open>\<open>xs.includes(x)\<close> on an array of strings.\<close>

definition array_includes :: "string list \<Rightarrow> string \<Rightarrow> bool" where
  "array_includes xs x = List.member xs x"

section \<open>Registry data (schemas/registry.ts)\<close>

text \<open>
  The object types inferred from the zod schemas.  Several of them share field names
  (\<open>name\<close>, \<open>title\<close>, \<open>description\<close>, \<open>categories\<close>); the summary of a component in the
  index keeps the plain names, fields of the other types carry a prefix.  A JavaScript
  object used as a dictionary (\<open>z.record\<close>, \<open>Record<string, T>\<close>) is an association list
  of its own properties in insertion order; writing \<open>obj[key] = v\<close> is \<open>AList.update\<close>,
  \<open>Object.keys\<close> is \<open>map fst\<close>.

  Reading \<open>obj[key]\<close> on such an object looks at the own properties first and then at
  its prototype, \<open>Object.prototype\<close>: for a key that is not an own property and is the
  name of a member of \<open>Object.prototype\<close> the read yields that member (a function, or
  \<open>Object.prototype\<close> itself for \<open>__proto__\<close>), which is truthy and is neither a
  category nor a number.  \<open>get_property\<close> is that read.
\<close>

definition object_prototype_keys :: "string list" where
  "object_prototype_keys =
     [''constructor'', ''__defineGetter__'', ''__defineSetter__'', ''hasOwnProperty'',
      ''__lookupGetter__'', ''__lookupSetter__'', ''isPrototypeOf'', ''propertyIsEnumerable'',
      ''toString'', ''valueOf'', ''__proto__'', ''toLocaleString'']"

datatype 'a property = Undefined | Own 'a | Inherited string

definition get_property :: "(string \<times> 'a) list \<Rightarrow> string \<Rightarrow> 'a property" where
  "get_property obj key =
     (case map_of obj key of
        Some v \<Rightarrow> Own v
      | None \<Rightarrow> if List.member object_prototype_keys key then Inherited key else Undefined)"

record RegistryComponent =
  name :: string
  title :: string
  description :: string
  type_ :: string
  categories :: "string list"
  featured :: bool
  url :: string

record Category =
  cat_title :: string
  cat_description :: string

record Meta =
  lastUpdated :: string
  totalComponents :: int
  maintainer :: string

record RegistryIndex =
  index_schema :: "string option"
  index_name :: string
  index_description :: string
  index_version :: string
  index_framework :: string
  baseUrl :: string
  components :: "RegistryComponent list"
  index_categories :: "(string \<times> Category) list"
  meta :: "Meta option"

section \<open>Query layer (utils/api.ts)\<close>

text \<open>
  Every query function first awaits \<open>fetchRegistryIndex()\<close> and then works on the index
  it got; the functions below are those bodies, with the fetched index as their first
  argument.  An optional parameter is an \<open>option\<close>; \<open>if (category)\<close> tests truthiness,
  which for a string means present and not empty.
\<close>

record SearchResult =
  results :: "RegistryComponent list"
  total :: nat
  query :: string
  filters :: "string option \<times> bool option"

definition truthy_string :: "string option \<Rightarrow> bool" where
  "truthy_string s = (case s of None \<Rightarrow> False | Some v \<Rightarrow> v \<noteq> [])"

definition matches_query :: "string \<Rightarrow> RegistryComponent \<Rightarrow> bool" where
  "matches_query queryLower component =
     (str_includes (toLowerCase (name component)) queryLower \<or>
      str_includes (toLowerCase (title component)) queryLower \<or>
      str_includes (toLowerCase (description component)) queryLower)"

definition searchComponents ::
  "RegistryIndex \<Rightarrow> string \<Rightarrow> string option \<Rightarrow> bool option \<Rightarrow> SearchResult" where
  "searchComponents registryIndex q category feat =
     (let results0 = components registryIndex;
          results1 = (if truthy_string category
                      then filter (\<lambda>component. array_includes (categories component) (the category))
                             results0
                      else results0);
          results2 = (case feat of
                        None \<Rightarrow> results1
                      | Some f \<Rightarrow> filter (\<lambda>component. featured component = f) results1);
          results3 = (if trim q \<noteq> []
                      then filter (matches_query (toLowerCase q)) results2
                      else results2)
      in \<lparr> results = results3, total = length results3, query = q,
           filters = (category, feat) \<rparr>)"

text \<open>
  \<open>registryIndex.categories[category] || null\<close>: the category's entry, \<open>null\<close> when the
  read finds nothing, and the inherited member when the read finds one.
\<close>

datatype category_info = Null | Info Category | Member string

definition or_null :: "Category property \<Rightarrow> category_info" where
  "or_null p = (case p of Undefined \<Rightarrow> Null | Own info \<Rightarrow> Info info | Inherited m \<Rightarrow> Member m)"

record CategoryComponents =
  cc_category :: string
  categoryInfo :: category_info
  cc_components :: "RegistryComponent list"
  cc_total :: nat

definition getComponentsByCategory :: "RegistryIndex \<Rightarrow> string \<Rightarrow> CategoryComponents" where
  "getComponentsByCategory registryIndex category =
     (let comps = filter (\<lambda>component. array_includes (categories component) category)
                    (components registryIndex);
          info = or_null (get_property (index_categories registryIndex) category)
      in \<lparr> cc_category = category, categoryInfo = info, cc_components = comps,
           cc_total = length comps \<rparr>)"

text \<open>
  \<open>getCategories\<close>: the first loop counts into \<open>categoryCounts\<close>, an object that starts
  as \<open>{}\<close>, once for every entry of every component's \<open>categories\<close> array; the second
  loop copies each entry of the index's category dictionary and attaches
  \<open>categoryCounts[key] || 0\<close> (\<open>count_or_zero\<close>).

  A count is a number, unless the read \<open>categoryCounts[cat]\<close> found a member of
  \<open>Object.prototype\<close>: then \<open>|| 0\<close> keeps the member, \<open>+ 1\<close> makes a string of it, and
  the string is what is stored and found from then on (\<open>NotANumber\<close> stands for the
  member and for the strings made of it; for \<open>__proto__\<close> the store has no effect and
  every read finds the member again).
\<close>

datatype js_count = Count nat | NotANumber

definition count_or_zero :: "(string \<times> js_count) list \<Rightarrow> string \<Rightarrow> js_count" where
  "count_or_zero categoryCounts key =
     (case get_property categoryCounts key of
        Undefined \<Rightarrow> Count 0
      | Own v \<Rightarrow> v
      | Inherited m \<Rightarrow> NotANumber)"

definition plus_one :: "js_count \<Rightarrow> js_count" where
  "plus_one v = (case v of Count n \<Rightarrow> Count (n + 1) | NotANumber \<Rightarrow> NotANumber)"

definition bump_count :: "(string \<times> js_count) list \<Rightarrow> string \<Rightarrow> (string \<times> js_count) list" where
  "bump_count categoryCounts cat =
     AList.update cat (plus_one (count_or_zero categoryCounts cat)) categoryCounts"

definition count_categories :: "RegistryComponent list \<Rightarrow> (string \<times> js_count) list" where
  "count_categories comps =
     fold (\<lambda>component counts. fold (\<lambda>cat acc. bump_count acc cat) (categories component) counts)
       comps []"

record CategoryWithCount =
  cwc_title :: string
  cwc_description :: string
  count :: js_count

record CategoriesResult =
  cr_categories :: "(string \<times> CategoryWithCount) list"
  cr_total :: nat

definition getCategories :: "RegistryIndex \<Rightarrow> CategoriesResult" where
  "getCategories registryIndex =
     (let categoryCounts = count_categories (components registryIndex);
          cats = fold (\<lambda>(key, info) acc.
                    AList.update key
                      \<lparr> cwc_title = cat_title info, cwc_description = cat_description info,
                        count = count_or_zero categoryCounts key \<rparr>
                      acc)
                   (index_categories registryIndex) []
      in \<lparr> cr_categories = cats, cr_total = length (map fst cats) \<rparr>)"

record FeaturedResult =
  fr_components :: "RegistryComponent list"
  fr_total :: nat

definition getFeaturedComponents :: "RegistryIndex \<Rightarrow> FeaturedResult" where
  "getFeaturedComponents registryIndex =
     (let featuredComponents = filter featured (components registryIndex)
      in \<lparr> fr_components = featuredComponents, fr_total = length featuredComponents \<rparr>)"

record Stats =
  st_totalComponents :: nat
  featuredComponents :: nat
  categoriesCount :: nat
  st_lastUpdated :: "string option"

record RegistryInfo =
  registry :: RegistryIndex
  stats :: Stats

definition getRegistryInfo :: "RegistryIndex \<Rightarrow> RegistryInfo" where
  "getRegistryInfo registryIndex =
     (let featuredCount = length (filter featured (components registryIndex))
      in \<lparr> registry = registryIndex,
           stats = \<lparr> st_totalComponents = length (components registryIndex),
                     featuredComponents = featuredCount,
                     categoriesCount = length (map fst (index_categories registryIndex)),
                     st_lastUpdated =
                       (case meta registryIndex of
                          None \<Rightarrow> None
                        | Some m \<Rightarrow> if lastUpdated m = [] then None else Some (lastUpdated m)) \<rparr> \<rparr>)"

section \<open>Response bodies and schema validation (schemas/registry.ts)\<close>

text \<open>
  A response body is a decoded JSON value.  Each zod schema is a function from such a
  value to either the typed object or the validator's diagnostic (\<open>Inl\<close>).  An optional
  field accepts a missing key only; \<open>z.object\<close> drops keys the schema does not name.
  The diagnostic stands for the text of the \<open>ZodError\<close> that \<open>parse\<close> throws (the
  source interpolates it into its own message after a fixed prefix); here it is one
  sentence naming the first check that fails, and nothing below depends on its wording.
\<close>

datatype json =
    JNull
  | JBool bool
  | JNumber int
  | JString string
  | JArray "json list"
  | JObject "(string \<times> json) list"

definition then_parse :: "string + 'a \<Rightarrow> ('a \<Rightarrow> string + 'b) \<Rightarrow> string + 'b" where
  "then_parse r k = (case r of Inl issue \<Rightarrow> Inl issue | Inr v \<Rightarrow> k v)"

definition req_string :: "(string \<times> json) list \<Rightarrow> string \<Rightarrow> string + string" where
  "req_string obj k =
     (case map_of obj k of
        Some (JString s) \<Rightarrow> Inr s
      | _ \<Rightarrow> Inl (k @ '': expected string''))"

definition opt_string :: "(string \<times> json) list \<Rightarrow> string \<Rightarrow> string + string option" where
  "opt_string obj k =
     (case map_of obj k of
        None \<Rightarrow> Inr None
      | Some (JString s) \<Rightarrow> Inr (Some s)
      | Some _ \<Rightarrow> Inl (k @ '': expected string''))"

definition req_bool :: "(string \<times> json) list \<Rightarrow> string \<Rightarrow> string + bool" where
  "req_bool obj k =
     (case map_of obj k of
        Some (JBool b) \<Rightarrow> Inr b
      | _ \<Rightarrow> Inl (k @ '': expected boolean''))"

definition opt_bool :: "(string \<times> json) list \<Rightarrow> string \<Rightarrow> string + bool option" where
  "opt_bool obj k =
     (case map_of obj k of
        None \<Rightarrow> Inr None
      | Some (JBool b) \<Rightarrow> Inr (Some b)
      | Some _ \<Rightarrow> Inl (k @ '': expected boolean''))"

definition req_number :: "(string \<times> json) list \<Rightarrow> string \<Rightarrow> string + int" where
  "req_number obj k =
     (case map_of obj k of
        Some (JNumber n) \<Rightarrow> Inr n
      | _ \<Rightarrow> Inl (k @ '': expected number''))"

text \<open>\<open>z.array(item)\<close>: every element must pass, in order.\<close>

fun parse_all :: "(json \<Rightarrow> string + 'a) \<Rightarrow> json list \<Rightarrow> string + 'a list" where
  "parse_all item [] = Inr []"
| "parse_all item (j # js) =
     then_parse (item j) (\<lambda>v. then_parse (parse_all item js) (\<lambda>vs. Inr (v # vs)))"

definition parse_array :: "(json \<Rightarrow> string + 'a) \<Rightarrow> json \<Rightarrow> string + 'a list" where
  "parse_array item j = (case j of JArray js \<Rightarrow> parse_all item js | _ \<Rightarrow> Inl ''expected array'')"

definition parse_string :: "json \<Rightarrow> string + string" where
  "parse_string j = (case j of JString s \<Rightarrow> Inr s | _ \<Rightarrow> Inl ''expected string'')"

definition opt_field :: "(json \<Rightarrow> string + 'a) \<Rightarrow> (string \<times> json) list \<Rightarrow> string \<Rightarrow> string + 'a option" where
  "opt_field p obj k =
     (case map_of obj k of
        None \<Rightarrow> Inr None
      | Some j \<Rightarrow> then_parse (p j) (\<lambda>v. Inr (Some v)))"

definition req_field :: "(json \<Rightarrow> string + 'a) \<Rightarrow> (string \<times> json) list \<Rightarrow> string \<Rightarrow> string + 'a" where
  "req_field p obj k =
     (case map_of obj k of
        None \<Rightarrow> Inl (k @ '': required'')
      | Some j \<Rightarrow> p j)"

text \<open>\<open>z.record(z.string())\<close>: an object all of whose values are strings.\<close>

fun parse_string_entries :: "(string \<times> json) list \<Rightarrow> string + (string \<times> string) list" where
  "parse_string_entries [] = Inr []"
| "parse_string_entries ((k, j) # kvs) =
     then_parse (parse_string j)
       (\<lambda>v. then_parse (parse_string_entries kvs) (\<lambda>vs. Inr ((k, v) # vs)))"

datatype dependencies = DepArray "string list" | DepRecord "(string \<times> string) list"

text \<open>\<open>z.union([z.array(z.string()), z.record(z.string())])\<close>: the first option that passes.\<close>

definition parse_dependencies :: "json \<Rightarrow> string + dependencies" where
  "parse_dependencies j =
     (case parse_array parse_string j of
        Inr xs \<Rightarrow> Inr (DepArray xs)
      | Inl _ \<Rightarrow>
          (case j of
             JObject kvs \<Rightarrow> then_parse (parse_string_entries kvs) (\<lambda>r. Inr (DepRecord r))
           | _ \<Rightarrow> Inl ''invalid union''))"

record ComponentFile =
  path :: "string option"
  file_name :: "string option"
  file_type :: "string option"
  target :: "string option"
  language :: "string option"
  content :: string

text \<open>
  \<open>ComponentFileSchema\<close>: the object schema, then the refinement
  \<open>data.path || data.name\<close>, which is truthy when one of the two is a non-empty string.
\<close>

definition ComponentFileSchema :: "json \<Rightarrow> string + ComponentFile" where
  "ComponentFileSchema j =
     (case j of
        JObject obj \<Rightarrow>
          then_parse (opt_string obj ''path'') (\<lambda>p.
          then_parse (opt_string obj ''name'') (\<lambda>n.
          then_parse (opt_string obj ''type'') (\<lambda>ty.
          then_parse (opt_string obj ''target'') (\<lambda>tg.
          then_parse (opt_string obj ''language'') (\<lambda>lg.
          then_parse (req_string obj ''content'') (\<lambda>c.
            if truthy_string p \<or> truthy_string n
            then Inr \<lparr> path = p, file_name = n, file_type = ty, target = tg,
                       language = lg, content = c \<rparr>
            else Inl ''Either 'path' or 'name' must be provided''))))))
      | _ \<Rightarrow> Inl ''expected object'')"

datatype theme = classic | modern | experimental

record BrutalistFeatures =
  hasThickBorders :: "bool option"
  hasShadows :: "bool option"
  hasSharpCorners :: "bool option"
  hasHighContrast :: "bool option"
  hasAnimations :: "bool option"
  hasGlitchEffects :: "bool option"
  bf_theme :: "theme option"

definition parse_theme :: "json \<Rightarrow> string + theme" where
  "parse_theme j =
     (if j = JString ''classic'' then Inr classic
      else if j = JString ''modern'' then Inr modern
      else if j = JString ''experimental'' then Inr experimental
      else Inl ''theme: invalid enum value'')"

definition BrutalistFeaturesSchema :: "json \<Rightarrow> string + BrutalistFeatures" where
  "BrutalistFeaturesSchema j =
     (case j of
        JObject obj \<Rightarrow>
          then_parse (opt_bool obj ''hasThickBorders'') (\<lambda>b1.
          then_parse (opt_bool obj ''hasShadows'') (\<lambda>b2.
          then_parse (opt_bool obj ''hasSharpCorners'') (\<lambda>b3.
          then_parse (opt_bool obj ''hasHighContrast'') (\<lambda>b4.
          then_parse (opt_bool obj ''hasAnimations'') (\<lambda>b5.
          then_parse (opt_bool obj ''hasGlitchEffects'') (\<lambda>b6.
          then_parse (opt_field parse_theme obj ''theme'') (\<lambda>th.
            Inr \<lparr> hasThickBorders = b1, hasShadows = b2, hasSharpCorners = b3,
                  hasHighContrast = b4, hasAnimations = b5, hasGlitchEffects = b6,
                  bf_theme = th \<rparr>)))))))
      | _ \<Rightarrow> Inl ''expected object'')"

record Component =
  comp_schema :: "string option"
  comp_name :: string
  comp_type :: "string option"
  comp_title :: "string option"
  comp_description :: string
  author :: "string option"
  comp_version :: string
  comp_framework :: "string option"
  frameworks :: "string list option"
  brutalistFeatures :: "BrutalistFeatures option"
  comp_categories :: "string list option"
  comp_category :: "string option"
  tags :: "string list option"
  comp_dependencies :: "dependencies option"
  peerDependencies :: "dependencies option"
  files :: "ComponentFile list"
  comp_lastUpdated :: "string option"

definition ComponentSchema :: "json \<Rightarrow> string + Component" where
  "ComponentSchema j =
     (case j of
        JObject obj \<Rightarrow>
          then_parse (opt_string obj ''$schema'') (\<lambda>sc.
          then_parse (req_string obj ''name'') (\<lambda>nm.
          then_parse (opt_string obj ''type'') (\<lambda>ty.
          then_parse (opt_string obj ''title'') (\<lambda>ti.
          then_parse (req_string obj ''description'') (\<lambda>de.
          then_parse (opt_string obj ''author'') (\<lambda>au.
          then_parse (req_string obj ''version'') (\<lambda>ve.
          then_parse (opt_string obj ''framework'') (\<lambda>fw.
          then_parse (opt_field (parse_array parse_string) obj ''frameworks'') (\<lambda>fws.
          then_parse (opt_field BrutalistFeaturesSchema obj ''brutalistFeatures'') (\<lambda>bf.
          then_parse (opt_field (parse_array parse_string) obj ''categories'') (\<lambda>cs.
          then_parse (opt_string obj ''category'') (\<lambda>ca.
          then_parse (opt_field (parse_array parse_string) obj ''tags'') (\<lambda>tgs.
          then_parse (opt_field parse_dependencies obj ''dependencies'') (\<lambda>deps.
          then_parse (opt_field parse_dependencies obj ''peerDependencies'') (\<lambda>pdeps.
          then_parse (req_field (parse_array ComponentFileSchema) obj ''files'') (\<lambda>fs.
          then_parse (opt_string obj ''lastUpdated'') (\<lambda>lu.
            Inr \<lparr> comp_schema = sc, comp_name = nm, comp_type = ty, comp_title = ti,
                  comp_description = de, author = au, comp_version = ve,
                  comp_framework = fw, frameworks = fws, brutalistFeatures = bf,
                  comp_categories = cs, comp_category = ca, tags = tgs,
                  comp_dependencies = deps, peerDependencies = pdeps, files = fs,
                  comp_lastUpdated = lu \<rparr>)))))))))))))))))
      | _ \<Rightarrow> Inl ''expected object'')"

definition RegistryComponentSchema :: "json \<Rightarrow> string + RegistryComponent" where
  "RegistryComponentSchema j =
     (case j of
        JObject obj \<Rightarrow>
          then_parse (req_string obj ''name'') (\<lambda>nm.
          then_parse (req_string obj ''title'') (\<lambda>ti.
          then_parse (req_string obj ''description'') (\<lambda>de.
          then_parse (req_string obj ''type'') (\<lambda>ty.
          then_parse (req_field (parse_array parse_string) obj ''categories'') (\<lambda>cs.
          then_parse (req_bool obj ''featured'') (\<lambda>fe.
          then_parse (req_string obj ''url'') (\<lambda>u.
            Inr \<lparr> name = nm, title = ti, description = de, type_ = ty, categories = cs,
                  featured = fe, url = u \<rparr>)))))))
      | _ \<Rightarrow> Inl ''expected object'')"

definition CategorySchema :: "json \<Rightarrow> string + Category" where
  "CategorySchema j =
     (case j of
        JObject obj \<Rightarrow>
          then_parse (req_string obj ''title'') (\<lambda>ti.
          then_parse (req_string obj ''description'') (\<lambda>de.
            Inr \<lparr> cat_title = ti, cat_description = de \<rparr>))
      | _ \<Rightarrow> Inl ''expected object'')"

fun parse_category_entries :: "(string \<times> json) list \<Rightarrow> string + (string \<times> Category) list" where
  "parse_category_entries [] = Inr []"
| "parse_category_entries ((k, j) # kvs) =
     then_parse (CategorySchema j)
       (\<lambda>v. then_parse (parse_category_entries kvs) (\<lambda>vs. Inr ((k, v) # vs)))"

definition parse_category_record :: "json \<Rightarrow> string + (string \<times> Category) list" where
  "parse_category_record j =
     (case j of JObject kvs \<Rightarrow> parse_category_entries kvs | _ \<Rightarrow> Inl ''expected object'')"

definition parse_meta :: "json \<Rightarrow> string + Meta" where
  "parse_meta j =
     (case j of
        JObject obj \<Rightarrow>
          then_parse (req_string obj ''lastUpdated'') (\<lambda>lu.
          then_parse (req_number obj ''totalComponents'') (\<lambda>tc.
          then_parse (req_string obj ''maintainer'') (\<lambda>ma.
            Inr \<lparr> lastUpdated = lu, totalComponents = tc, maintainer = ma \<rparr>)))
      | _ \<Rightarrow> Inl ''expected object'')"

definition RegistryIndexSchema :: "json \<Rightarrow> string + RegistryIndex" where
  "RegistryIndexSchema j =
     (case j of
        JObject obj \<Rightarrow>
          then_parse (opt_string obj ''$schema'') (\<lambda>sc.
          then_parse (req_string obj ''name'') (\<lambda>nm.
          then_parse (req_string obj ''description'') (\<lambda>de.
          then_parse (req_string obj ''version'') (\<lambda>ve.
          then_parse (req_string obj ''framework'') (\<lambda>fw.
          then_parse (req_string obj ''baseUrl'') (\<lambda>bu.
          then_parse (req_field (parse_array RegistryComponentSchema) obj ''components'') (\<lambda>cs.
          then_parse (req_field parse_category_record obj ''categories'') (\<lambda>cats.
          then_parse (opt_field parse_meta obj ''meta'') (\<lambda>me.
            Inr \<lparr> index_schema = sc, index_name = nm, index_description = de, index_version = ve,
                  index_framework = fw, baseUrl = bu, components = cs,
                  index_categories = cats, meta = me \<rparr>)))))))))
      | _ \<Rightarrow> Inl ''expected object'')"

section \<open>Configuration (utils/api.ts, index.ts)\<close>

text \<open>
  The process environment as far as the server reads or writes it, and the command line.
  \<open>REGISTRY_BASE_URL\<close> is the module-level constant of utils/api.ts, computed from the
  environment when the module is loaded.  \<open>parseArgs\<close> returns \<open>None\<close> when it ends the
  process (\<open>--help\<close>, \<open>--version\<close>); \<open>main_env\<close> is the environment \<open>main\<close> leaves
  behind before it starts the server.
\<close>

record env =
  NODE_ENV :: "string option"
  REGISTRY_BASE_URL_var :: "string option"

definition REGISTRY_BASE_URL :: "env \<Rightarrow> string" where
  "REGISTRY_BASE_URL e =
     (if NODE_ENV e = Some ''production''
      then ''https://brutalist.precast.dev/registry/react''
      else ''http://localhost:3000/registry/react'')"

text \<open>
  \<open>args.findIndex(arg => arg === '--registry-url')\<close> followed by the truthiness test of
  \<open>args[registryUrlIndex + 1]\<close>: the argument after the first occurrence of the flag,
  if there is one and it is not empty.
\<close>

fun registry_url_arg :: "string list \<Rightarrow> string option" where
  "registry_url_arg [] = None"
| "registry_url_arg (a # rest) =
     (if a = ''--registry-url''
      then (case rest of [] \<Rightarrow> None | u # _ \<Rightarrow> if u \<noteq> [] then Some u else None)
      else registry_url_arg rest)"

definition parseArgs :: "string list \<Rightarrow> string option option" where
  "parseArgs argv =
     (let args = drop 2 argv in
      if List.member args ''--help'' \<or> List.member args ''-h'' then None
      else if List.member args ''--version'' \<or> List.member args ''-v'' then None
      else Some (registry_url_arg args))"

definition main_env :: "env \<Rightarrow> string list \<Rightarrow> env option" where
  "main_env e argv =
     (case parseArgs argv of
        None \<Rightarrow> None
      | Some registryUrl \<Rightarrow>
          if truthy_string registryUrl
          then Some (e\<lparr>REGISTRY_BASE_URL_var := registryUrl\<rparr>)
          else
            (let isDev = (NODE_ENV e = Some ''development'' \<or> NODE_ENV e = Some ''dev'' \<or>
                          List.member argv ''--dev'');
                 base = (if isDev then ''http://localhost:3000''
                         else ''https://brutalist.precast.dev'')
             in Some (e\<lparr>REGISTRY_BASE_URL_var := Some (base @ ''/registry/react'')\<rparr>)))"

section \<open>Cache and registry client (utils/api.ts)\<close>

text \<open>
  The module-level \<open>cache\<close> maps a key to the stored data and the clock reading at the
  time of storing.  \<open>Date.now()\<close> is an argument of each operation.  The cache holds
  registry indexes (under \<open>registry-index\<close>) and components (under
  \<open>component-<name>\<close>); \<open>getFromCache<T>\<close> casts without a check, and each fetch
  function only ever finds its own kind under its own key.
\<close>

datatype cached = CachedIndex RegistryIndex | CachedComponent Component

record cache_entry =
  data :: cached
  timestamp :: int

type_synonym cache = "string \<rightharpoonup> cache_entry"

definition CACHE_TTL :: int where
  "CACHE_TTL = 5 * 60 * 1000"

definition getFromCache :: "cache \<Rightarrow> int \<Rightarrow> string \<Rightarrow> cached option" where
  "getFromCache c now key =
     (case c key of
        None \<Rightarrow> None
      | Some entry \<Rightarrow> if now - timestamp entry < CACHE_TTL then Some (data entry) else None)"

definition setCache :: "cache \<Rightarrow> int \<Rightarrow> string \<Rightarrow> cached \<Rightarrow> cache" where
  "setCache c now key d = c(key \<mapsto> \<lparr> data = d, timestamp = now \<rparr>)"

text \<open>
  What \<open>axios.get\<close> does with a request: it resolves with a body, or rejects with an
  axios error that carries the response status (when a response arrived) and a message.
  Every error the source throws is a plain \<open>Error\<close> told apart by its message; the
  three \<open>throw new Error(...)\<close> sites of a fetch function are the constructors
  \<open>NotFoundError\<close>, \<open>FetchError\<close> and \<open>ParseError\<close>, each with the message the
  source builds.  \<open>TypeError\<close> and \<open>DocumentationError\<close> are what utils/docs.ts
  throws.
\<close>

datatype http_result = Http_ok json | Axios_error "nat option" string

datatype error =
    NotFoundError string
  | FetchError string
  | ParseError string
  | TypeError string
  | DocumentationError ustring

fun message :: "error \<Rightarrow> ustring" where
  "message (NotFoundError m) = units m"
| "message (FetchError m) = units m"
| "message (ParseError m) = units m"
| "message (TypeError m) = units m"
| "message (DocumentationError m) = m"

text \<open>
  The state a fetch works on: the cache, and the list of URLs requested so far (every
  call of \<open>axios.get\<close> appends one).  A fetch takes the environment the module was
  loaded in, the outcome the network has for a request, and the two clock readings
  (one in \<open>getFromCache\<close>, one in \<open>setCache\<close>).
\<close>

record world =
  cache_of :: cache
  requests :: "string list"

definition fetchRegistryIndex ::
  "env \<Rightarrow> http_result \<Rightarrow> int \<Rightarrow> int \<Rightarrow> world \<Rightarrow> (error + RegistryIndex) \<times> world" where
  "fetchRegistryIndex e net now_get now_set w =
     (let cacheKey = ''registry-index'' in
      case getFromCache (cache_of w) now_get cacheKey of
        Some (CachedIndex registryIndex) \<Rightarrow> (Inr registryIndex, w)
      | _ \<Rightarrow>
          (let w1 = w\<lparr>requests := requests w @ [REGISTRY_BASE_URL e @ ''/index.json'']\<rparr> in
           case net of
             Axios_error status msg \<Rightarrow>
               (Inl (FetchError (''Failed to fetch registry index: '' @ msg)), w1)
           | Http_ok body \<Rightarrow>
               (case RegistryIndexSchema body of
                  Inl issue \<Rightarrow>
                    (Inl (ParseError (''Failed to parse registry index: '' @ issue)), w1)
                | Inr registryIndex \<Rightarrow>
                    (Inr registryIndex,
                     w1\<lparr>cache_of := setCache (cache_of w1) now_set cacheKey
                                       (CachedIndex registryIndex)\<rparr>))))"

definition fetchComponent ::
  "env \<Rightarrow> http_result \<Rightarrow> int \<Rightarrow> int \<Rightarrow> string \<Rightarrow> world \<Rightarrow> (error + Component) \<times> world" where
  "fetchComponent e net now_get now_set componentName w =
     (let cacheKey = ''component-'' @ componentName in
      case getFromCache (cache_of w) now_get cacheKey of
        Some (CachedComponent component) \<Rightarrow> (Inr component, w)
      | _ \<Rightarrow>
          (let w1 = w\<lparr>requests := requests w @
                         [REGISTRY_BASE_URL e @ ''/'' @ componentName @ ''.json'']\<rparr> in
           case net of
             Axios_error status msg \<Rightarrow>
               (if status = Some 404
                then (Inl (NotFoundError (''Component '' @ [CHR 0x27] @ componentName @
                             [CHR 0x27] @ '' not found in registry'')), w1)
                else (Inl (FetchError (''Failed to fetch component '' @ [CHR 0x27] @
                             componentName @ [CHR 0x27] @ '': '' @ msg)), w1))
           | Http_ok body \<Rightarrow>
               (case ComponentSchema body of
                  Inl issue \<Rightarrow>
                    (Inl (ParseError (''Failed to parse component '' @ [CHR 0x27] @
                            componentName @ [CHR 0x27] @ '': '' @ issue)), w1)
                | Inr component \<Rightarrow>
                    (Inr component,
                     w1\<lparr>cache_of := setCache (cache_of w1) now_set cacheKey
                                       (CachedComponent component)\<rparr>))))"

text \<open>
  The cast in \<open>getFromCache<T>\<close> is never wrong: an index is only ever stored under
  \<open>registry-index\<close>, a component only under a key \<open>component-<name>\<close>.  \<open>cache_typed\<close>
  says so of a cache.
\<close>

definition cache_typed :: "cache \<Rightarrow> bool" where
  "cache_typed c =
     (\<forall>k entry. c k = Some entry \<longrightarrow>
        (case data entry of
           CachedIndex _ \<Rightarrow> k = ''registry-index''
         | CachedComponent _ \<Rightarrow> (\<exists>n. k = ''component-'' @ n)))"

text \<open>
  Between two fetches of one key the server may serve other invocations; as far as the
  cache and the network are concerned each of them is a fetch of the index or of a
  component, with its own network outcome and clock readings.  \<open>perform\<close> is the
  effect of one such call on the state, \<open>perform_all\<close> that of a sequence of them.
\<close>

datatype call = IndexCall http_result int int | ComponentCall string http_result int int

fun call_key :: "call \<Rightarrow> string" where
  "call_key (IndexCall net now_get now_set) = ''registry-index''"
| "call_key (ComponentCall componentName net now_get now_set) = ''component-'' @ componentName"

fun call_read_time :: "call \<Rightarrow> int" where
  "call_read_time (IndexCall net now_get now_set) = now_get"
| "call_read_time (ComponentCall componentName net now_get now_set) = now_get"

fun perform :: "env \<Rightarrow> call \<Rightarrow> world \<Rightarrow> world" where
  "perform e (IndexCall net now_get now_set) w = snd (fetchRegistryIndex e net now_get now_set w)"
| "perform e (ComponentCall componentName net now_get now_set) w =
     snd (fetchComponent e net now_get now_set componentName w)"

definition perform_all :: "env \<Rightarrow> call list \<Rightarrow> world \<Rightarrow> world" where
  "perform_all e calls w = fold (perform e) calls w"

text \<open>
  A call may come between two fetches of the key \<open>k\<close> stored at time \<open>stored\<close> without
  touching them when it uses another key, or reads the cache within the time to live of
  that entry.
\<close>

definition leaves_entry :: "string \<Rightarrow> int \<Rightarrow> call \<Rightarrow> bool" where
  "leaves_entry k stored c = (if call_key c = k then call_read_time c - stored < CACHE_TTL else True)"

section \<open>Documentation (utils/docs.ts)\<close>

text \<open>The catalog \<open>DOCS_STRUCTURE\<close>: three sections, each with its list of items.\<close>

definition guides_items :: "string list" where
  "guides_items =
     [''introduction'', ''installation'', ''typescript'', ''cli'', ''design-principles'',
      ''colors'', ''typography'', ''spacing'', ''animations'', ''shapes'',
      ''accessibility'', ''theming'', ''changelog'']"

definition components_items :: "string list" where
  "components_items =
     [''accordion'', ''alert'', ''avatar'', ''badge'', ''bar-chart'', ''line-chart'',
      ''pie-chart'', ''area-chart'', ''aspect-ratio'', ''breadcrumb'', ''button'', ''card'',
      ''checkbox'', ''combobox'', ''command'', ''container'', ''context-menu'', ''dialog'',
      ''drawer'', ''dropdown'', ''hover-card'', ''input'', ''input-otp'', ''navigation'',
      ''pagination'', ''popover'', ''progress'', ''radio'', ''select'', ''separator'',
      ''sidebar'', ''skeleton'', ''slider'', ''spinner'', ''stack'', ''switch'', ''toggle'',
      ''typography'', ''table'', ''table-of-contents'', ''tabs'', ''textarea'', ''toast'',
      ''tooltip'']"

definition api_items :: "string list" where
  "api_items = [''types'', ''registry'']"

definition DOCS_STRUCTURE :: "(string \<times> string list) list" where
  "DOCS_STRUCTURE =
     [(''guides'', guides_items), (''components'', components_items), (''api'', api_items)]"

text \<open>
  \<open>searchDocumentation\<close>: the outer \<open>forEach\<close> over the sections to search, the inner
  one over the items of a section.  For a section name that is not a key of
  \<open>DOCS_STRUCTURE\<close> the read \<open>DOCS_STRUCTURE[sectionName]\<close> yields \<open>undefined\<close> or a
  member of \<open>Object.prototype\<close>, neither of which has a \<open>forEach\<close>: the call throws a
  \<open>TypeError\<close>, which leaves the function.
\<close>

definition section_matches :: "string \<Rightarrow> string \<Rightarrow> string list \<Rightarrow> string list" where
  "section_matches searchTerm sectionName items =
     map (\<lambda>item. sectionName @ ''/'' @ item)
       (filter (\<lambda>item. str_includes (toLowerCase item) searchTerm) items)"

fun search_sections :: "string \<Rightarrow> string list \<Rightarrow> string list \<Rightarrow> error + string list" where
  "search_sections searchTerm [] acc = Inr acc"
| "search_sections searchTerm (sectionName # rest) acc =
     (case get_property DOCS_STRUCTURE sectionName of
        Undefined \<Rightarrow>
          Inl (TypeError ''Cannot read properties of undefined (reading 'forEach')'')
      | Inherited m \<Rightarrow> Inl (TypeError ''items.forEach is not a function'')
      | Own items \<Rightarrow>
          search_sections searchTerm rest (acc @ section_matches searchTerm sectionName items))"

definition searchDocumentation :: "string \<Rightarrow> string option \<Rightarrow> error + string list" where
  "searchDocumentation q sect =
     (let searchTerm = toLowerCase q;
          sectionsToSearch = (if truthy_string sect then [the sect] else map fst DOCS_STRUCTURE)
      in search_sections searchTerm sectionsToSearch [])"

definition getAllDocumentationSections :: "(string \<times> string list) list" where
  "getAllDocumentationSections = DOCS_STRUCTURE"

record Accessibility =
  keyboardSupport :: "string list"
  ariaAttributes :: "string list"
  bestPractices :: "string list"

record ApiProp =
  prop_name :: string
  prop_type :: string
  defaultValue :: "string option"
  prop_description :: string
  required :: "bool option"

record DocumentationSection =
  doc_title :: ustring
  doc_description :: string
  doc_content :: ustring
  examples :: "string list"
  accessibility :: "Accessibility option"
  apiReference :: "ApiProp list option"

text \<open>
  The file system as \<open>fs.existsSync\<close> and \<open>fs.readFileSync\<close> see it: a path is
  missing, present but unreadable (the read throws with a message), or readable with
  some content.  Paths are built with \<open>toUpperCase\<close> and so are \<open>ustring\<close>s.
\<close>

datatype file_state = Missing | Unreadable string | Readable string

definition existsSync :: "(ustring \<Rightarrow> file_state) \<Rightarrow> ustring \<Rightarrow> bool" where
  "existsSync fs p = (fs p \<noteq> Missing)"

definition readFileSync :: "(ustring \<Rightarrow> file_state) \<Rightarrow> ustring \<Rightarrow> ustring + string" where
  "readFileSync fs p =
     (case fs p of
        Readable c \<Rightarrow> Inr c
      | Unreadable m \<Rightarrow> Inl (units m)
      | Missing \<Rightarrow>
          Inl (units ''ENOENT: no such file or directory, open '' @ [39] @ p @ [39]))"

text \<open>
  The scraping helpers (\<open>extractTitle\<close>, \<open>extractDescription\<close>, \<open>extractMainContent\<close>,
  \<open>extractExamples\<close>, \<open>extractAccessibility\<close>) are regular-expression matches on the
  file content that return a value for every string; they are parameters here.
  \<open>extractAPIReference\<close> returns \<open>undefined\<close> for every content.
\<close>

record extractors =
  extractTitle :: "string \<Rightarrow> string"
  extractDescription :: "string \<Rightarrow> string"
  extractMainContent :: "string \<Rightarrow> string"
  extractExamples :: "string \<Rightarrow> string list"
  extractAccessibility :: "string \<Rightarrow> Accessibility option"

definition extractAPIReference :: "string \<Rightarrow> ApiProp list option" where
  "extractAPIReference file_content = None"

definition docs_dir :: ustring where
  "docs_dir =
     units ''/home/sacha/repositories/brutalist-components/apps/website/src/pages/docs/''"

text \<open>\<open>componentName.charAt(0).toUpperCase() + componentName.slice(1)\<close>\<close>

definition capitalized :: "string \<Rightarrow> ustring" where
  "capitalized componentName =
     toUpperCase (charAt0 componentName) @ units (slice1 componentName)"

definition potentialPaths :: "string \<Rightarrow> ustring list" where
  "potentialPaths componentName =
     [docs_dir @ units ''components/'' @ capitalized componentName @ units ''Page.tsx'',
      docs_dir @ units ''components/'' @ units componentName @ units ''.tsx'',
      docs_dir @ units ''components/BarChartPage.tsx'',
      docs_dir @ units ''components/LineChartPage.tsx'',
      docs_dir @ units ''components/TableOfContentsPage.tsx'',
      docs_dir @ units ''ShapesPage.tsx'',
      docs_dir @ units ''components/aspect-ratio.tsx'',
      docs_dir @ units ''components/pagination.tsx'']"

definition specialCases :: "(string \<times> ustring) list" where
  "specialCases =
     [(''bar-chart'', docs_dir @ units ''components/BarChartPage.tsx''),
      (''line-chart'', docs_dir @ units ''components/LineChartPage.tsx''),
      (''table-of-contents'', docs_dir @ units ''components/TableOfContentsPage.tsx''),
      (''shapes'', docs_dir @ units ''ShapesPage.tsx''),
      (''pagination'', docs_dir @ units ''components/pagination.tsx''),
      (''aspect-ratio'', docs_dir @ units ''components/aspect-ratio.tsx'')]"

definition empty_accessibility :: Accessibility where
  "empty_accessibility = \<lparr> keyboardSupport = [], ariaAttributes = [], bestPractices = [] \<rparr>"

text \<open>
  The loop over \<open>potentialPaths\<close>: the first path that exists and can be read ends the
  loop (also when its content is empty); a read that throws is skipped.  The pair is
  \<open>(content, foundPath)\<close>.
\<close>

fun try_paths ::
  "(ustring \<Rightarrow> file_state) \<Rightarrow> ustring list \<Rightarrow> string \<times> ustring \<Rightarrow> string \<times> ustring" where
  "try_paths fs [] found = found"
| "try_paths fs (potentialPath # rest) found =
     (if existsSync fs potentialPath
      then (case readFileSync fs potentialPath of
              Inr c \<Rightarrow> (c, potentialPath)
            | Inl _ \<Rightarrow> try_paths fs rest found)
      else try_paths fs rest found)"

definition not_found_content :: "string \<Rightarrow> ustring" where
  "not_found_content componentName =
     units ''# '' @ capitalized componentName @ units '' Component'' @ [10, 10] @
     units ''Documentation file not found. Please check the component'' @ [39] @
     units ''s source code for implementation details.''"

definition fallback_doc :: "string \<Rightarrow> ustring \<Rightarrow> DocumentationSection" where
  "fallback_doc componentName body =
     \<lparr> doc_title = capitalized componentName,
       doc_description = ''Documentation for '' @ componentName @ '' component'',
       doc_content = body,
       examples = [],
       accessibility = Some empty_accessibility,
       apiReference = None \<rparr>"

text \<open>
  \<open>extractComponentDocumentation\<close>, the copy with the fallback record.  Its first
  argument is what \<open>await import('fs')\<close> yields: the module, or the error it rejects
  with, which the outer \<open>catch\<close> turns into a fallback record.  \<open>x || y\<close> on strings
  takes \<open>y\<close> when \<open>x\<close> is empty.  \<open>specialCases[componentName]\<close> is a read on a plain
  object: for the name of a member of \<open>Object.prototype\<close> it is truthy, the read of the
  file then throws (the member is not a path) and the inner \<open>catch\<close> goes on.
\<close>

definition or_else :: "'a list \<Rightarrow> 'a list \<Rightarrow> 'a list" where
  "or_else x y = (if x \<noteq> [] then x else y)"

definition extractComponentDocumentation ::
  "extractors \<Rightarrow> string + (ustring \<Rightarrow> file_state) \<Rightarrow> string \<Rightarrow> error + DocumentationSection" where
  "extractComponentDocumentation ex fs_import componentName =
     (case fs_import of
        Inl err \<Rightarrow>
          Inr (fallback_doc componentName
                 (units ''# '' @ capitalized componentName @ units '' Component'' @ [10, 10] @
                  units ''Error loading documentation: '' @ units err))
      | Inr fs \<Rightarrow>
          (let found0 =
                 (case get_property specialCases componentName of
                    Undefined \<Rightarrow> ([], [])
                  | Inherited m \<Rightarrow> ([], [])
                  | Own special \<Rightarrow>
                      (case readFileSync fs special of
                         Inr c \<Rightarrow> (c, special)
                       | Inl _ \<Rightarrow> ([], [])));
               found = (if fst found0 = [] then try_paths fs (potentialPaths componentName) found0
                        else found0);
               file_content = fst found;
               foundPath = snd found
           in if file_content = []
              then Inr (fallback_doc componentName (not_found_content componentName))
              else Inr \<lparr> doc_title = or_else (units (extractTitle ex file_content))
                                      (capitalized componentName),
                         doc_description = or_else (extractDescription ex file_content)
                                             (componentName @ '' component''),
                         doc_content = or_else (units (extractMainContent ex file_content))
                                         (units ''Documentation loaded from: '' @ foundPath),
                         examples = extractExamples ex file_content,
                         accessibility =
                           (case extractAccessibility ex file_content of
                              None \<Rightarrow> Some empty_accessibility
                            | Some a \<Rightarrow> Some a),
                         apiReference = extractAPIReference file_content \<rparr>))"

text \<open>
  The other copy of \<open>extractComponentDocumentation\<close>: one path chosen by an
  \<open>if\<close>/\<open>else if\<close> chain on the name, one read, and a \<open>catch\<close> that throws again.
\<close>

definition docsPath_of :: "string \<Rightarrow> ustring" where
  "docsPath_of componentName =
     (if componentName = ''aspect-ratio'' then docs_dir @ units ''components/aspect-ratio.tsx''
      else if componentName = ''pagination'' then docs_dir @ units ''components/pagination.tsx''
      else if componentName = ''bar-chart'' then docs_dir @ units ''components/BarChartPage.tsx''
      else if componentName = ''line-chart''
        then docs_dir @ units ''components/LineChartPage.tsx''
      else if componentName = ''table-of-contents''
        then docs_dir @ units ''components/TableOfContentsPage.tsx''
      else if componentName = ''shapes'' then docs_dir @ units ''ShapesPage.tsx''
      else docs_dir @ units ''components/'' @ capitalized componentName @ units ''Page.tsx'')"

definition extractComponentDocumentation_rethrowing ::
  "extractors \<Rightarrow> string + (ustring \<Rightarrow> file_state) \<Rightarrow> string \<Rightarrow> error + DocumentationSection" where
  "extractComponentDocumentation_rethrowing ex fs_import componentName =
     (let docsPath = docsPath_of componentName;
          failed = (\<lambda>msg. Inl (DocumentationError
                      (units ''Failed to extract documentation for '' @ units componentName @
                       units '': '' @ msg)))
      in case fs_import of
           Inl err \<Rightarrow> failed (units err)
         | Inr fs \<Rightarrow>
             (case readFileSync fs docsPath of
                Inl err \<Rightarrow> failed err
              | Inr file_content \<Rightarrow>
                  Inr \<lparr> doc_title = units (extractTitle ex file_content),
                        doc_description = extractDescription ex file_content,
                        doc_content = units (extractMainContent ex file_content),
                        examples = extractExamples ex file_content,
                        accessibility = extractAccessibility ex file_content,
                        apiReference = extractAPIReference file_content \<rparr>))"

section \<open>The specification's reading of the two searches\<close>

text \<open>
  The search of the query layer as the specification words it: three filters in a row,
  category membership if a category is given, featured equality if a flag is given, and
  a case-insensitive substring match on name, title or description unless the query is
  empty or all white space.  ``Substring'' is \<^const>\<open>sublist\<close>: the query occurs
  somewhere between a prefix and a suffix.
\<close>

definition ci_contains :: "string \<Rightarrow> string \<Rightarrow> bool" where
  "ci_contains field q = sublist (toLowerCase q) (toLowerCase field)"

definition category_filter_spec :: "string option \<Rightarrow> RegistryComponent list \<Rightarrow> RegistryComponent list" where
  "category_filter_spec category cs =
     (case category of
        None \<Rightarrow> cs
      | Some cat \<Rightarrow> filter (\<lambda>c. cat \<in> set (categories c)) cs)"

definition featured_filter_spec :: "bool option \<Rightarrow> RegistryComponent list \<Rightarrow> RegistryComponent list" where
  "featured_filter_spec feat cs =
     (case feat of
        None \<Rightarrow> cs
      | Some f \<Rightarrow> filter (\<lambda>c. featured c = f) cs)"

definition text_filter_spec :: "string \<Rightarrow> RegistryComponent list \<Rightarrow> RegistryComponent list" where
  "text_filter_spec q cs =
     (if list_all is_js_space q then cs
      else filter (\<lambda>c. ci_contains (name c) q \<or> ci_contains (title c) q \<or>
                        ci_contains (description c) q) cs)"

definition search_spec ::
  "RegistryIndex \<Rightarrow> string \<Rightarrow> string option \<Rightarrow> bool option \<Rightarrow> RegistryComponent list" where
  "search_spec registryIndex q category feat =
     text_filter_spec q
       (featured_filter_spec feat (category_filter_spec category (components registryIndex)))"

text \<open>An optional string argument that is given as the empty string counts as not given.\<close>

definition given :: "string option \<Rightarrow> string option" where
  "given arg = (if arg = Some [] then None else arg)"

text \<open>
  The documentation search as the specification words it: the items of the given
  section when one is supplied, of all three sections otherwise, whose name contains the
  query case-insensitively, each as \<open>section/item\<close>.
\<close>

definition section_hits_spec :: "string \<Rightarrow> string \<Rightarrow> string list" where
  "section_hits_spec q s =
     map (\<lambda>item. s @ ''/'' @ item)
       (filter (\<lambda>item. ci_contains item q)
          (case map_of DOCS_STRUCTURE s of None \<Rightarrow> [] | Some items \<Rightarrow> items))"

definition searchDocumentation_spec :: "string \<Rightarrow> string option \<Rightarrow> string list" where
  "searchDocumentation_spec q sect =
     (case sect of
        Some s \<Rightarrow> section_hits_spec q s
      | None \<Rightarrow> concat (map (section_hits_spec q) [''guides'', ''components'', ''api'']))"

section \<open>Fixtures\<close>

definition mk_component :: "string \<Rightarrow> string list \<Rightarrow> bool \<Rightarrow> RegistryComponent" where
  "mk_component n cats f =
     \<lparr> name = n, title = n, description = [], type_ = ''registry:component'',
       categories = cats, featured = f, url = ''/registry/react/'' @ n @ ''.json'' \<rparr>"

definition mk_category :: "string \<Rightarrow> string \<times> Category" where
  "mk_category k = (k, \<lparr> cat_title = k, cat_description = [] \<rparr>)"

definition mk_index :: "RegistryComponent list \<Rightarrow> (string \<times> Category) list \<Rightarrow> RegistryIndex" where
  "mk_index cs cats =
     \<lparr> index_schema = None, index_name = ''brutalist-ui'', index_description = [],
       index_version = ''1.0.0'', index_framework = ''react'',
       baseUrl = ''https://brutalist.precast.dev'', components = cs,
       index_categories = cats, meta = None \<rparr>"

text \<open>
  The index of the end-to-end scenario: a featured button in category \<open>action\<close> and a
  card in category \<open>display\<close>, with the category dictionary holding these two keys.
\<close>

definition e2e_index :: RegistryIndex where
  "e2e_index =
     mk_index [mk_component ''button'' [''action''] True,
               mk_component ''card'' [''display''] False]
              [mk_category ''action'', mk_category ''display'']"

text \<open>An index one of whose components lists the same category twice.\<close>

definition dup_index :: RegistryIndex where
  "dup_index =
     mk_index [mk_component ''input'' [''forms'', ''forms''] False]
              [mk_category ''forms'']"

text \<open>An index with a component in a category the category dictionary does not have.\<close>

definition ghost_index :: RegistryIndex where
  "ghost_index =
     mk_index [mk_component ''input'' [''forms'', ''ghost''] False]
              [mk_category ''forms'']"

definition untagged_index :: RegistryIndex where
  "untagged_index = mk_index [mk_component ''card'' [] False] []"

text \<open>Response bodies: a component with one file, and the same with a file without a path.\<close>

definition button_body :: "(string \<times> json) list \<Rightarrow> json" where
  "button_body file =
     JObject [(''name'', JString ''button''), (''description'', JString ''A button''),
              (''version'', JString ''1.0.0''), (''files'', JArray [JObject file])]"

definition button_file :: "(string \<times> json) list" where
  "button_file = [(''path'', JString ''button.tsx''), (''content'', JString ''export {}'')]"

definition button_component :: Component where
  "button_component =
     \<lparr> comp_schema = None, comp_name = ''button'', comp_type = None, comp_title = None,
       comp_description = ''A button'', author = None, comp_version = ''1.0.0'',
       comp_framework = None, frameworks = None, brutalistFeatures = None,
       comp_categories = None, comp_category = None, tags = None,
       comp_dependencies = None, peerDependencies = None,
       files = [\<lparr> path = Some ''button.tsx'', file_name = None, file_type = None,
                  target = None, language = None, content = ''export {}'' \<rparr>],
       comp_lastUpdated = None \<rparr>"

definition index_body :: json where
  "index_body =
     JObject [(''name'', JString ''brutalist-ui''), (''description'', JString []),
              (''version'', JString ''1.0.0''), (''framework'', JString ''react''),
              (''baseUrl'', JString ''https://brutalist.precast.dev''),
              (''components'', JArray []), (''categories'', JObject [])]"

definition empty_world :: world where
  "empty_world = \<lparr> cache_of = Map.empty, requests = [] \<rparr>"

definition bare_env :: env where
  "bare_env = \<lparr> NODE_ENV = None, REGISTRY_BASE_URL_var = None \<rparr>"

definition no_extractors :: extractors where
  "no_extractors =
     \<lparr> extractTitle = (\<lambda>_. []), extractDescription = (\<lambda>_. []),
       extractMainContent = (\<lambda>_. []), extractExamples = (\<lambda>_. []),
       extractAccessibility = (\<lambda>_. None) \<rparr>"

text \<open>Calls served between two fetches: two component fetches and an index fetch.\<close>

definition traffic :: "call list" where
  "traffic =
     [ComponentCall ''card'' (Axios_error (Some 404) ''Request failed with status code 404'') 30 40,
      IndexCall (Axios_error None ''offline'') 50 60,
      ComponentCall ''button'' (Axios_error None ''offline'') 70 80]"

section \<open>Strings: the built-in methods against their meaning\<close>

lemma starts_with_prefix: "starts_with s t = prefix t s"
  by (induction s t rule: starts_with.induct) auto

lemma str_includes_sublist: "str_includes s t = sublist t s"
proof (induction s)
  case Nil
  show ?case by simp
next
  case (Cons a s)
  show ?case
  proof (cases t)
    case Nil
    then show ?thesis by simp
  next
    case (Cons b t')
    then show ?thesis
      using Cons.IH by (simp add: starts_with_prefix sublist_Cons_right)
  qed
qed

lemma trim_empty_iff: "(trim q = []) = list_all is_js_space q"
proof -
  have "(trim q = []) = (\<forall>x\<in>set (dropWhile is_js_space q). is_js_space x)"
    by (simp add: trim_def dropWhile_eq_Nil_conv)
  also have "\<dots> = (dropWhile is_js_space q = [])"
  proof (cases "dropWhile is_js_space q")
    case Nil
    then show ?thesis by (simp del: dropWhile_eq_Nil_conv)
  next
    case (Cons a as)
    then have "\<not> is_js_space (hd (dropWhile is_js_space q))"
      using hd_dropWhile [of is_js_space q] by simp
    with Cons show ?thesis by auto
  qed
  also have "\<dots> = (\<forall>x\<in>set q. is_js_space x)"
    by (simp add: dropWhile_eq_Nil_conv)
  finally show ?thesis by (simp add: list_all_iff)
qed

lemma sublist_quoted: "sublist n (pre @ [q] @ n @ [q] @ post)"
  by (metis append.assoc sublist_appendI)

text \<open>Code units that are not upper-case letters are left alone by \<open>toLowerCase\<close>.\<close>

lemma upper_letters_range:
  "c \<in> set upper_letters \<Longrightarrow>
   (65 \<le> (of_char c :: nat) \<and> (of_char c :: nat) \<le> 90) \<or> 192 \<le> (of_char c :: nat)"
  by (auto simp: upper_letters_def)

lemma toLowerCase_char_other:
  assumes "(of_char c :: nat) < 65 \<or> (90 < (of_char c :: nat) \<and> (of_char c :: nat) < 192)"
  shows "toLowerCase_char c = c"
proof -
  have "c \<notin> set upper_letters"
    using assms upper_letters_range [of c] by auto
  moreover have "length upper_letters = length lower_letters"
    by (simp add: upper_letters_def lower_letters_def)
  ultimately have "map_of (zip upper_letters lower_letters) c = None"
    by (simp add: map_of_zip_is_None)
  then show ?thesis by (simp add: toLowerCase_char_def)
qed

text \<open>
  The case conversions beyond ASCII: \<open>toLowerCase\<close> folds the accented capitals and
  leaves the multiplication sign and the sharp s; \<open>toUpperCase\<close> of a first letter can
  lengthen the string or leave the range below U+0100.
\<close>

lemma toLowerCase_latin1:
  "toLowerCase [CHR 0xC9, CHR ''A'', CHR 0xD7, CHR 0xDE, CHR 0xDF]
     = [CHR 0xE9, CHR ''a'', CHR 0xD7, CHR 0xFE, CHR 0xDF]"
  by (simp add: toLowerCase_def toLowerCase_char_def upper_letters_def lower_letters_def)

lemma toUpperCase_char_nonempty: "toUpperCase_char c \<noteq> []"
  by (simp add: toUpperCase_char_def Let_def)

lemma capitalized_nonempty: "n \<noteq> [] \<Longrightarrow> capitalized n \<noteq> []"
  by (cases n) (simp_all add: capitalized_def charAt0_def toUpperCase_def toUpperCase_char_nonempty)

lemma capitalized_empty: "capitalized [] = []"
  by (simp add: capitalized_def charAt0_def slice1_def toUpperCase_def units_def)

lemma capitalized_widget: "capitalized ''widget'' = units ''Widget''"
  by (simp add: capitalized_def charAt0_def slice1_def toUpperCase_def toUpperCase_char_def
      units_def)

lemma capitalized_latin1:
  "capitalized [CHR 0xE9, CHR ''c''] = [201, 99]"
  "capitalized [CHR 0xDF] = [83, 83]"
  "capitalized [CHR 0xFF] = [376]"
  "capitalized [CHR 0xB5] = [924]"
  "capitalized [CHR 0xF7] = [247]"
  by (simp_all add: capitalized_def charAt0_def slice1_def toUpperCase_def toUpperCase_char_def
      units_def)

section \<open>Documentation extractor\<close>

lemma try_paths_none:
  "list_all (\<lambda>p. \<forall>c. fs p \<noteq> Readable c) ps \<Longrightarrow> try_paths fs ps found = found"
  by (induction ps) (auto simp: readFileSync_def split: file_state.splits)

lemma extractComponentDocumentation_total:
  "\<exists>d. extractComponentDocumentation ex fsi n = Inr d"
  by (simp add: extractComponentDocumentation_def Let_def split: sum.splits property.splits)

lemma specialCases_absent:
  "n \<notin> set (map fst specialCases) \<Longrightarrow>
   (case get_property specialCases n of
      Undefined \<Rightarrow> ([], [])
    | Inherited m \<Rightarrow> ([], [])
    | Own special \<Rightarrow> f special) = ([], [])"
  by (simp add: get_property_def map_of_eq_None_iff [THEN iffD2] split: property.splits)

text \<open>
  Claim C1, as amended.  \<open>extractComponentDocumentation\<close> (the copy with the fallback
  record) returns a record for every extractor set, every outcome of loading the file
  system module and every component name: it never raises.  When the name is not in the
  special-case table and none of the candidate paths can be read, the record is the
  default one: its title is the name with its first code unit upper-cased
  (\<open>charAt(0).toUpperCase() + slice(1)\<close>), which is not empty whenever the name is not
  empty; its content is the ``documentation file not found'' placeholder, which is never
  empty; its list of examples is empty.
\<close>

theorem extractComponentDocumentation_default_record:
  "(\<exists>d. extractComponentDocumentation ex fsi n = Inr d)
   \<and> (n \<notin> set (map fst specialCases)
        \<and> list_all (\<lambda>p. \<forall>c. fs p \<noteq> Readable c) (potentialPaths n) \<longrightarrow>
        (\<exists>d. extractComponentDocumentation ex (Inr fs) n = Inr d
           \<and> doc_title d = capitalized n
           \<and> (n \<noteq> [] \<longrightarrow> doc_title d \<noteq> [])
           \<and> doc_content d = not_found_content n
           \<and> doc_content d \<noteq> []
           \<and> examples d = []))"
proof -
  have cap: "n \<noteq> [] \<longrightarrow> capitalized n \<noteq> []"
    using capitalized_nonempty [of n] by auto
  have "n \<notin> set (map fst specialCases)
        \<and> list_all (\<lambda>p. \<forall>c. fs p \<noteq> Readable c) (potentialPaths n) \<longrightarrow>
        extractComponentDocumentation ex (Inr fs) n
          = Inr (fallback_doc n (not_found_content n))"
    by (simp add: extractComponentDocumentation_def Let_def try_paths_none specialCases_absent
        del: set_map)
  moreover have "doc_title (fallback_doc n (not_found_content n)) = capitalized n"
    and "doc_content (fallback_doc n (not_found_content n)) = not_found_content n"
    and "examples (fallback_doc n (not_found_content n)) = []"
    by (simp_all add: fallback_doc_def)
  moreover have "not_found_content n \<noteq> []"
    by (simp add: not_found_content_def units_def)
  ultimately show ?thesis
    using cap extractComponentDocumentation_total [of ex fsi n] by auto
qed

text \<open>The theorem at the name \<open>widget\<close> on a file system without any file.\<close>

theorem extractComponentDocumentation_default_record_witness:
  "''widget'' \<notin> set (map fst specialCases)
   \<and> list_all (\<lambda>p. \<forall>c. (\<lambda>_. Missing) p \<noteq> Readable c) (potentialPaths ''widget'')
   \<and> ''widget'' \<noteq> []
   \<and> (\<exists>d. extractComponentDocumentation no_extractors (Inr (\<lambda>_. Missing)) ''widget'' = Inr d
         \<and> doc_title d = units ''Widget'' \<and> doc_title d \<noteq> [] \<and> examples d = [])"
proof -
  have sp: "''widget'' \<notin> set (map fst specialCases)"
    by (simp add: specialCases_def)
  have la: "list_all (\<lambda>p. \<forall>c. (\<lambda>_. Missing) p \<noteq> Readable c) (potentialPaths ''widget'')"
    by (simp add: list_all_iff)
  show ?thesis
    using extractComponentDocumentation_default_record
          [of no_extractors "Inr (\<lambda>_. Missing)" "''widget''" "\<lambda>_. Missing"] sp la
    unfolding capitalized_widget by auto
qed

text \<open>
  Claim C1 as stated asks for a non-empty title for every name.  For the empty name,
  which the tool's parameter schema (\<open>z.string()\<close>) lets through, the default record
  has the empty title.
\<close>

theorem extractComponentDocumentation_empty_name_counterexample:
  "extractComponentDocumentation no_extractors (Inr (\<lambda>_. Missing)) []
     = Inr \<lparr> doc_title = [], doc_description = ''Documentation for  component'',
             doc_content = not_found_content [], examples = [],
             accessibility = Some empty_accessibility, apiReference = None \<rparr>"
proof -
  have "[] \<notin> set (map fst specialCases)"
    by (simp add: specialCases_def)
  then have "extractComponentDocumentation no_extractors (Inr (\<lambda>_. Missing)) []
          = Inr (fallback_doc [] (not_found_content []))"
    by (simp add: extractComponentDocumentation_def Let_def specialCases_absent try_paths_none
        list_all_iff del: set_map)
  then show ?thesis
    by (simp add: fallback_doc_def capitalized_empty)
qed

text \<open>
  The other copy of the function has no fallback: when its one path cannot be read it
  raises.
\<close>

lemma extractComponentDocumentation_rethrowing_raises:
  assumes "\<forall>c. fs (docsPath_of n) \<noteq> Readable c"
  shows "\<exists>m. extractComponentDocumentation_rethrowing ex (Inr fs) n = Inl (DocumentationError m)"
  using assms
  by (cases "fs (docsPath_of n)")
     (simp_all add: extractComponentDocumentation_rethrowing_def Let_def readFileSync_def)

section \<open>Registry base URL\<close>

text \<open>
  Claim C2 on the code.  Started with \<open>--registry-url https://custom-registry.com\<close> and
  no \<open>NODE_ENV\<close>, \<open>main\<close> stores the override in the environment variable
  \<open>REGISTRY_BASE_URL\<close>, and the registry client still requests
  \<open>http://localhost:3000/registry/react/index.json\<close>: its constant reads \<open>NODE_ENV\<close>
  only.  Started without any option and without \<open>NODE_ENV\<close>, \<open>main\<close> announces the
  production registry and the client requests the development one.
\<close>

theorem registry_override_ignored:
  "main_env bare_env [''node'', ''index.js'', ''--registry-url'', ''https://custom-registry.com'']
     = Some (bare_env\<lparr>REGISTRY_BASE_URL_var := Some ''https://custom-registry.com''\<rparr>)
   \<and> requests (snd (fetchRegistryIndex
         (bare_env\<lparr>REGISTRY_BASE_URL_var := Some ''https://custom-registry.com''\<rparr>)
         (Axios_error None ''connect ECONNREFUSED'') 0 0 empty_world))
     = [''http://localhost:3000/registry/react/index.json'']
   \<and> main_env bare_env [''node'', ''index.js'']
     = Some (bare_env\<lparr>REGISTRY_BASE_URL_var := Some ''https://brutalist.precast.dev/registry/react''\<rparr>)
   \<and> requests (snd (fetchRegistryIndex bare_env (Axios_error None ''connect ECONNREFUSED'')
         0 0 empty_world))
     = [''http://localhost:3000/registry/react/index.json'']"
  by (simp add: main_env_def parseArgs_def truthy_string_def bare_env_def Let_def
      fetchRegistryIndex_def getFromCache_def empty_world_def REGISTRY_BASE_URL_def)

section \<open>Cache and fetches\<close>

lemma getFromCache_setCache:
  "getFromCache (setCache c t k v) now k = (if now - t < CACHE_TTL then Some v else None)"
  by (simp add: getFromCache_def setCache_def)

lemma fetchRegistryIndex_miss:
  assumes "getFromCache (cache_of w) t ''registry-index'' = None"
    and "RegistryIndexSchema body = Inr idx"
  shows "fetchRegistryIndex e (Http_ok body) t t' w =
           (Inr idx, \<lparr> cache_of = setCache (cache_of w) t' ''registry-index'' (CachedIndex idx),
                       requests = requests w @ [REGISTRY_BASE_URL e @ ''/index.json''] \<rparr>)"
  using assms by (simp add: fetchRegistryIndex_def Let_def)

lemma fetchRegistryIndex_hit:
  assumes "getFromCache (cache_of w) t ''registry-index'' = Some (CachedIndex idx)"
  shows "fetchRegistryIndex e net t t' w = (Inr idx, w)"
  using assms by (simp add: fetchRegistryIndex_def Let_def)

lemma fetchComponent_miss:
  assumes "getFromCache (cache_of w) t (''component-'' @ n) = None"
    and "ComponentSchema body = Inr c"
  shows "fetchComponent e (Http_ok body) t t' n w =
           (Inr c, \<lparr> cache_of = setCache (cache_of w) t' (''component-'' @ n) (CachedComponent c),
                     requests = requests w @ [REGISTRY_BASE_URL e @ ''/'' @ n @ ''.json''] \<rparr>)"
  using assms by (simp add: fetchComponent_def Let_def)

lemma fetchComponent_hit:
  assumes "getFromCache (cache_of w) t (''component-'' @ n) = Some (CachedComponent c)"
  shows "fetchComponent e net t t' n w = (Inr c, w)"
  using assms by (simp add: fetchComponent_def Let_def)

lemma cache_typed_empty: "cache_typed Map.empty"
  by (simp add: cache_typed_def)

lemma cache_typed_fetchRegistryIndex:
  "cache_typed (cache_of w) \<Longrightarrow>
   cache_typed (cache_of (snd (fetchRegistryIndex e net t t' w)))"
  by (auto simp: fetchRegistryIndex_def Let_def setCache_def cache_typed_def
      split: option.splits cached.splits http_result.splits sum.splits)

lemma cache_typed_fetchComponent:
  "cache_typed (cache_of w) \<Longrightarrow>
   cache_typed (cache_of (snd (fetchComponent e net t t' n w)))"
  by (auto simp: fetchComponent_def Let_def setCache_def cache_typed_def
      split: option.splits cached.splits http_result.splits sum.splits)

text \<open>
  In such a cache a read under \<open>registry-index\<close> finds an index or nothing, and a read
  under a component key finds a component or nothing, so the last branch of the case
  distinction in each fetch function is the cache miss.
\<close>

lemma cache_typed_index_key:
  assumes "cache_typed c"
  shows "getFromCache c now ''registry-index'' \<noteq> Some (CachedComponent x)"
proof
  assume "getFromCache c now ''registry-index'' = Some (CachedComponent x)"
  then obtain entry where e: "c ''registry-index'' = Some entry" "data entry = CachedComponent x"
    by (auto simp: getFromCache_def split: option.splits if_splits)
  with assms have "\<exists>n. ''registry-index'' = ''component-'' @ n"
    unfolding cache_typed_def by fastforce
  then show False by simp
qed

lemma cache_typed_component_key:
  assumes "cache_typed c"
  shows "getFromCache c now (''component-'' @ n) \<noteq> Some (CachedIndex x)"
proof
  assume "getFromCache c now (''component-'' @ n) = Some (CachedIndex x)"
  then obtain entry where e: "c (''component-'' @ n) = Some entry" "data entry = CachedIndex x"
    by (auto simp: getFromCache_def split: option.splits if_splits)
  with assms have "''component-'' @ n = ''registry-index''"
    unfolding cache_typed_def by fastforce
  then show False by simp
qed

lemma index_body_parses: "RegistryIndexSchema index_body = Inr (mk_index [] [])"
  by (simp add: RegistryIndexSchema_def index_body_def then_parse_def req_string_def
      opt_string_def req_field_def opt_field_def parse_array_def parse_category_record_def
      mk_index_def)

lemma button_body_parses: "ComponentSchema (button_body button_file) = Inr button_component"
  by (simp add: ComponentSchema_def button_body_def button_file_def button_component_def
      then_parse_def req_string_def opt_string_def req_field_def opt_field_def
      parse_array_def ComponentFileSchema_def truthy_string_def)

text \<open>
  Storing under one key leaves every other key as it was, and so does a whole fetch:
  it writes at most the entry of its own key.
\<close>

lemma getFromCache_frame:
  "k' \<noteq> k \<Longrightarrow> getFromCache (setCache c t' k' v') now k = getFromCache c now k"
  by (simp add: getFromCache_def setCache_def)

lemma fetchRegistryIndex_other_key:
  "k \<noteq> ''registry-index'' \<Longrightarrow>
   cache_of (snd (fetchRegistryIndex e net t t' w)) k = cache_of w k"
  by (auto simp: fetchRegistryIndex_def Let_def setCache_def
      split: option.splits cached.splits http_result.splits sum.splits)

lemma fetchComponent_other_key:
  "k \<noteq> ''component-'' @ n \<Longrightarrow>
   cache_of (snd (fetchComponent e net t t' n w)) k = cache_of w k"
  by (auto simp: fetchComponent_def Let_def setCache_def
      split: option.splits cached.splits http_result.splits sum.splits)

lemma getFromCache_entry:
  "c k = Some \<lparr> data = v, timestamp = ts \<rparr> \<Longrightarrow> now - ts < CACHE_TTL \<Longrightarrow>
   getFromCache c now k = Some v"
  by (simp add: getFromCache_def)

lemma perform_keeps_index:
  assumes "cache_of w ''registry-index'' = Some \<lparr> data = CachedIndex idx, timestamp = ts \<rparr>"
    and "leaves_entry ''registry-index'' ts c"
  shows "cache_of (perform e c w) ''registry-index''
           = Some \<lparr> data = CachedIndex idx, timestamp = ts \<rparr>"
proof (cases c)
  case (IndexCall net tg tst)
  with assms(2) have "tg - ts < CACHE_TTL" by (simp add: leaves_entry_def)
  then have "getFromCache (cache_of w) tg ''registry-index'' = Some (CachedIndex idx)"
    using assms(1) by (rule getFromCache_entry [rotated])
  then show ?thesis
    using assms(1) IndexCall by (simp add: fetchRegistryIndex_hit)
next
  case (ComponentCall n net tg tst)
  then show ?thesis
    using assms(1) fetchComponent_other_key [of "''registry-index''" n e net tg tst w] by simp
qed

lemma perform_keeps_component:
  assumes k: "k = ''component-'' @ n"
    and "cache_of w k = Some \<lparr> data = CachedComponent cd, timestamp = ts \<rparr>"
    and "leaves_entry k ts c"
  shows "cache_of (perform e c w) k = Some \<lparr> data = CachedComponent cd, timestamp = ts \<rparr>"
proof (cases c)
  case (IndexCall net tg tst)
  have "k \<noteq> ''registry-index''" by (simp add: k)
  then show ?thesis
    using assms(2) IndexCall fetchRegistryIndex_other_key [of k e net tg tst w] by simp
next
  case (ComponentCall n' net tg tst)
  show ?thesis
  proof (cases "n' = n")
    case True
    with assms(3) ComponentCall have "tg - ts < CACHE_TTL" by (simp add: leaves_entry_def k)
    then have "getFromCache (cache_of w) tg k = Some (CachedComponent cd)"
      using assms(2) by (rule getFromCache_entry [rotated])
    then have "fetchComponent e net tg tst n w = (Inr cd, w)"
      unfolding k by (rule fetchComponent_hit)
    then show ?thesis
      using assms(2) ComponentCall True by simp
  next
    case False
    then have "k \<noteq> ''component-'' @ n'" by (simp add: k)
    then show ?thesis
      using assms(2) ComponentCall fetchComponent_other_key [of k n' e net tg tst w] by simp
  qed
qed

lemma perform_all_keeps_index:
  "cache_of w ''registry-index'' = Some \<lparr> data = CachedIndex idx, timestamp = ts \<rparr> \<Longrightarrow>
   list_all (leaves_entry ''registry-index'' ts) calls \<Longrightarrow>
   cache_of (perform_all e calls w) ''registry-index''
     = Some \<lparr> data = CachedIndex idx, timestamp = ts \<rparr>"
  unfolding perform_all_def
  by (induction calls arbitrary: w) (simp_all add: perform_keeps_index)

lemma perform_all_keeps_component:
  "k = ''component-'' @ n \<Longrightarrow>
   cache_of w k = Some \<lparr> data = CachedComponent cd, timestamp = ts \<rparr> \<Longrightarrow>
   list_all (leaves_entry k ts) calls \<Longrightarrow>
   cache_of (perform_all e calls w) k = Some \<lparr> data = CachedComponent cd, timestamp = ts \<rparr>"
  unfolding perform_all_def
  by (induction calls arbitrary: w) (simp_all add: perform_keeps_component del: append.simps)

lemma second_index_fetch:
  assumes "getFromCache (cache_of w) t1 ''registry-index'' = None"
    and "RegistryIndexSchema body = Inr idx"
    and "list_all (leaves_entry ''registry-index'' t1') calls"
    and "t2 - t1' < CACHE_TTL"
  shows "fetchRegistryIndex e net2 t2 t2'
           (perform_all e calls (snd (fetchRegistryIndex e (Http_ok body) t1 t1' w)))
         = (Inr idx, perform_all e calls (snd (fetchRegistryIndex e (Http_ok body) t1 t1' w)))"
proof -
  let ?w1 = "snd (fetchRegistryIndex e (Http_ok body) t1 t1' w)"
  have "cache_of ?w1 ''registry-index'' = Some \<lparr> data = CachedIndex idx, timestamp = t1' \<rparr>"
    by (simp add: fetchRegistryIndex_miss [OF assms(1,2)] setCache_def)
  then have "cache_of (perform_all e calls ?w1) ''registry-index''
               = Some \<lparr> data = CachedIndex idx, timestamp = t1' \<rparr>"
    using assms(3) by (rule perform_all_keeps_index)
  then have "getFromCache (cache_of (perform_all e calls ?w1)) t2 ''registry-index''
               = Some (CachedIndex idx)"
    using assms(4) by (rule getFromCache_entry)
  then show ?thesis by (rule fetchRegistryIndex_hit)
qed

lemma second_component_fetch:
  assumes "getFromCache (cache_of w) t1 (''component-'' @ n) = None"
    and "ComponentSchema body = Inr cd"
    and "list_all (leaves_entry (''component-'' @ n) t1') calls"
    and "t2 - t1' < CACHE_TTL"
  shows "fetchComponent e net2 t2 t2' n
           (perform_all e calls (snd (fetchComponent e (Http_ok body) t1 t1' n w)))
         = (Inr cd, perform_all e calls (snd (fetchComponent e (Http_ok body) t1 t1' n w)))"
proof -
  let ?w1 = "snd (fetchComponent e (Http_ok body) t1 t1' n w)"
  have "cache_of ?w1 (''component-'' @ n)
          = Some \<lparr> data = CachedComponent cd, timestamp = t1' \<rparr>"
    by (simp add: fetchComponent_miss [OF assms(1,2)] setCache_def)
  then have "cache_of (perform_all e calls ?w1) (''component-'' @ n)
               = Some \<lparr> data = CachedComponent cd, timestamp = t1' \<rparr>"
    using assms(3) by (rule perform_all_keeps_component [OF refl])
  then have "getFromCache (cache_of (perform_all e calls ?w1)) t2 (''component-'' @ n)
               = Some (CachedComponent cd)"
    using assms(4) by (rule getFromCache_entry)
  then show ?thesis by (rule fetchComponent_hit)
qed

text \<open>
  Claim C3.  The time to live is 300,000 ms.  A \<open>get\<close> right after a \<open>set\<close> of the same
  key returns the stored value; in general the value comes back exactly while
  \<open>now - storedAt < TTL\<close>.  Once \<open>now - storedAt \<ge> TTL\<close> the read answers as on a cache
  that does not have the key, and the entry is still in the cache.  A \<open>set\<close> of another
  key does not change what a \<open>get\<close> returns.  Consequently, when a first fetch of the
  index (or of a component) misses the cache and succeeds, it issues one request, and a
  second fetch of the same key whose read falls within the time to live of the stored
  entry returns the same value, whatever the network would answer, and issues none:
  this holds directly after the first fetch, and also after any sequence of calls served
  in between, each of which fetches another key or reads within the time to live.  In
  the latter case the second fetch leaves the whole state (cache and requests) as it
  found it.
\<close>

theorem cache_read_through_ttl:
  "CACHE_TTL = 300000
   \<and> getFromCache (setCache c t k v) t k = Some v
   \<and> getFromCache (setCache c t k v) now k = (if now - t < CACHE_TTL then Some v else None)
   \<and> (CACHE_TTL \<le> now - t \<longrightarrow>
        getFromCache (setCache c t k v) now k = getFromCache (c(k := None)) now k
        \<and> setCache c t k v k = Some \<lparr> data = v, timestamp = t \<rparr>)
   \<and> (k' \<noteq> k \<longrightarrow> getFromCache (setCache c t k' v) now k = getFromCache c now k)
   \<and> (getFromCache (cache_of w) t1 ''registry-index'' = None
        \<and> RegistryIndexSchema body = Inr idx \<and> t2 - t1' < CACHE_TTL \<longrightarrow>
        fst (fetchRegistryIndex e (Http_ok body) t1 t1' w) = Inr idx
        \<and> fst (fetchRegistryIndex e net2 t2 t2'
                 (snd (fetchRegistryIndex e (Http_ok body) t1 t1' w))) = Inr idx
        \<and> requests (snd (fetchRegistryIndex e net2 t2 t2'
                 (snd (fetchRegistryIndex e (Http_ok body) t1 t1' w))))
            = requests w @ [REGISTRY_BASE_URL e @ ''/index.json''])
   \<and> (getFromCache (cache_of w) t1 (''component-'' @ n) = None
        \<and> ComponentSchema cbody = Inr cd \<and> t2 - t1' < CACHE_TTL \<longrightarrow>
        fst (fetchComponent e (Http_ok cbody) t1 t1' n w) = Inr cd
        \<and> fst (fetchComponent e net2 t2 t2' n
                 (snd (fetchComponent e (Http_ok cbody) t1 t1' n w))) = Inr cd
        \<and> requests (snd (fetchComponent e net2 t2 t2' n
                 (snd (fetchComponent e (Http_ok cbody) t1 t1' n w))))
            = requests w @ [REGISTRY_BASE_URL e @ ''/'' @ n @ ''.json''])
   \<and> (getFromCache (cache_of w) t1 ''registry-index'' = None
        \<and> RegistryIndexSchema body = Inr idx
        \<and> list_all (leaves_entry ''registry-index'' t1') calls \<and> t2 - t1' < CACHE_TTL \<longrightarrow>
        requests (snd (fetchRegistryIndex e (Http_ok body) t1 t1' w))
          = requests w @ [REGISTRY_BASE_URL e @ ''/index.json'']
        \<and> fetchRegistryIndex e net2 t2 t2'
             (perform_all e calls (snd (fetchRegistryIndex e (Http_ok body) t1 t1' w)))
           = (Inr idx,
              perform_all e calls (snd (fetchRegistryIndex e (Http_ok body) t1 t1' w))))
   \<and> (getFromCache (cache_of w) t1 (''component-'' @ n) = None
        \<and> ComponentSchema cbody = Inr cd
        \<and> list_all (leaves_entry (''component-'' @ n) t1') calls \<and> t2 - t1' < CACHE_TTL \<longrightarrow>
        requests (snd (fetchComponent e (Http_ok cbody) t1 t1' n w))
          = requests w @ [REGISTRY_BASE_URL e @ ''/'' @ n @ ''.json'']
        \<and> fetchComponent e net2 t2 t2' n
             (perform_all e calls (snd (fetchComponent e (Http_ok cbody) t1 t1' n w)))
           = (Inr cd,
              perform_all e calls (snd (fetchComponent e (Http_ok cbody) t1 t1' n w))))"
proof -
  have ttl: "CACHE_TTL = 300000" by (simp add: CACHE_TTL_def)
  have fresh: "getFromCache (setCache c t k v) t k = Some v"
    by (simp add: getFromCache_setCache ttl)
  have expired: "CACHE_TTL \<le> now - t \<longrightarrow>
        getFromCache (setCache c t k v) now k = getFromCache (c(k := None)) now k
        \<and> setCache c t k v k = Some \<lparr> data = v, timestamp = t \<rparr>"
    by (simp add: getFromCache_def setCache_def)
  have frame: "k' \<noteq> k \<longrightarrow> getFromCache (setCache c t k' v) now k = getFromCache c now k"
    by (simp add: getFromCache_frame)
  have index: "getFromCache (cache_of w) t1 ''registry-index'' = None
        \<and> RegistryIndexSchema body = Inr idx \<and> t2 - t1' < CACHE_TTL \<longrightarrow>
        fst (fetchRegistryIndex e (Http_ok body) t1 t1' w) = Inr idx
        \<and> fst (fetchRegistryIndex e net2 t2 t2'
                 (snd (fetchRegistryIndex e (Http_ok body) t1 t1' w))) = Inr idx
        \<and> requests (snd (fetchRegistryIndex e net2 t2 t2'
                 (snd (fetchRegistryIndex e (Http_ok body) t1 t1' w))))
            = requests w @ [REGISTRY_BASE_URL e @ ''/index.json'']"
    by (simp add: fetchRegistryIndex_miss fetchRegistryIndex_hit getFromCache_setCache)
  have component: "getFromCache (cache_of w) t1 (''component-'' @ n) = None
        \<and> ComponentSchema cbody = Inr cd \<and> t2 - t1' < CACHE_TTL \<longrightarrow>
        fst (fetchComponent e (Http_ok cbody) t1 t1' n w) = Inr cd
        \<and> fst (fetchComponent e net2 t2 t2' n
                 (snd (fetchComponent e (Http_ok cbody) t1 t1' n w))) = Inr cd
        \<and> requests (snd (fetchComponent e net2 t2 t2' n
                 (snd (fetchComponent e (Http_ok cbody) t1 t1' n w))))
            = requests w @ [REGISTRY_BASE_URL e @ ''/'' @ n @ ''.json'']"
    by (simp add: fetchComponent_miss fetchComponent_hit getFromCache_setCache)
  have index_between: "getFromCache (cache_of w) t1 ''registry-index'' = None
        \<and> RegistryIndexSchema body = Inr idx
        \<and> list_all (leaves_entry ''registry-index'' t1') calls \<and> t2 - t1' < CACHE_TTL \<longrightarrow>
        requests (snd (fetchRegistryIndex e (Http_ok body) t1 t1' w))
          = requests w @ [REGISTRY_BASE_URL e @ ''/index.json'']
        \<and> fetchRegistryIndex e net2 t2 t2'
             (perform_all e calls (snd (fetchRegistryIndex e (Http_ok body) t1 t1' w)))
           = (Inr idx,
              perform_all e calls (snd (fetchRegistryIndex e (Http_ok body) t1 t1' w)))"
    using second_index_fetch [of w t1 body idx t1' calls t2 e net2 t2']
    by (simp add: fetchRegistryIndex_miss)
  have component_between: "getFromCache (cache_of w) t1 (''component-'' @ n) = None
        \<and> ComponentSchema cbody = Inr cd
        \<and> list_all (leaves_entry (''component-'' @ n) t1') calls \<and> t2 - t1' < CACHE_TTL \<longrightarrow>
        requests (snd (fetchComponent e (Http_ok cbody) t1 t1' n w))
          = requests w @ [REGISTRY_BASE_URL e @ ''/'' @ n @ ''.json'']
        \<and> fetchComponent e net2 t2 t2' n
             (perform_all e calls (snd (fetchComponent e (Http_ok cbody) t1 t1' n w)))
           = (Inr cd,
              perform_all e calls (snd (fetchComponent e (Http_ok cbody) t1 t1' n w)))"
    using second_component_fetch [of w t1 n cbody cd t1' calls t2 e net2 t2']
    by (simp add: fetchComponent_miss)
  from ttl fresh getFromCache_setCache [of c t k v now] expired frame index component
    index_between component_between
  show ?thesis by blast
qed

text \<open>
  The theorem on the empty cache, with a second fetch one millisecond before expiry, also
  after three calls served in between.
\<close>

theorem cache_read_through_ttl_witness:
  "CACHE_TTL \<le> 300000 - 0
   \<and> getFromCache (setCache Map.empty 0 ''registry-index'' (CachedIndex (mk_index [] [])))
        300000 ''registry-index'' = None
   \<and> ''component-button'' \<noteq> ''registry-index''
   \<and> getFromCache (cache_of empty_world) 10 ''registry-index'' = None
   \<and> RegistryIndexSchema index_body = Inr (mk_index [] [])
   \<and> getFromCache (cache_of empty_world) 10 (''component-'' @ ''button'') = None
   \<and> ComponentSchema (button_body button_file) = Inr button_component
   \<and> list_all (leaves_entry ''registry-index'' 20) traffic
   \<and> list_all (leaves_entry (''component-'' @ ''button'') 20) traffic
   \<and> (300019 :: int) - 20 < CACHE_TTL
   \<and> fst (fetchRegistryIndex bare_env (Axios_error None ''offline'') 300019 300020
            (snd (fetchRegistryIndex bare_env (Http_ok index_body) 10 20 empty_world)))
       = Inr (mk_index [] [])
   \<and> requests (snd (fetchRegistryIndex bare_env (Axios_error None ''offline'') 300019 300020
            (snd (fetchRegistryIndex bare_env (Http_ok index_body) 10 20 empty_world))))
       = requests empty_world @ [REGISTRY_BASE_URL bare_env @ ''/index.json'']
   \<and> fst (fetchComponent bare_env (Axios_error None ''offline'') 300019 300020 ''button''
            (snd (fetchComponent bare_env (Http_ok (button_body button_file)) 10 20 ''button''
                    empty_world)))
       = Inr button_component
   \<and> requests (snd (fetchComponent bare_env (Axios_error None ''offline'') 300019 300020
            ''button''
            (snd (fetchComponent bare_env (Http_ok (button_body button_file)) 10 20 ''button''
                    empty_world))))
       = requests empty_world @ [REGISTRY_BASE_URL bare_env @ ''/'' @ ''button'' @ ''.json'']
   \<and> fetchRegistryIndex bare_env (Axios_error None ''offline'') 300019 300020
         (perform_all bare_env traffic
            (snd (fetchRegistryIndex bare_env (Http_ok index_body) 10 20 empty_world)))
       = (Inr (mk_index [] []),
          perform_all bare_env traffic
            (snd (fetchRegistryIndex bare_env (Http_ok index_body) 10 20 empty_world)))
   \<and> fetchComponent bare_env (Axios_error None ''offline'') 300019 300020 ''button''
         (perform_all bare_env traffic
            (snd (fetchComponent bare_env (Http_ok (button_body button_file)) 10 20 ''button''
                    empty_world)))
       = (Inr button_component,
          perform_all bare_env traffic
            (snd (fetchComponent bare_env (Http_ok (button_body button_file)) 10 20 ''button''
                    empty_world)))"
proof -
  have miss: "getFromCache (cache_of empty_world) 10 k = None" for k
    by (simp add: getFromCache_def empty_world_def)
  have ttl: "CACHE_TTL = 300000" by (simp add: CACHE_TTL_def)
  have h1: "CACHE_TTL \<le> 300000 - 0" by (simp add: ttl)
  have h2: "(300019 :: int) - 20 < CACHE_TTL" by (simp add: ttl)
  have h3: "''component-button'' \<noteq> ''registry-index''" by simp
  have h4: "list_all (leaves_entry ''registry-index'' 20) traffic"
    by (simp add: traffic_def leaves_entry_def ttl)
  have h5: "list_all (leaves_entry (''component-'' @ ''button'') 20) traffic"
    by (simp add: traffic_def leaves_entry_def ttl)
  note a = cache_read_through_ttl [where c = Map.empty and t = 0 and k = "''registry-index''"
      and k' = "''component-button''"
      and v = "CachedIndex (mk_index [] [])" and now = 300000
      and w = empty_world and ?t1.0 = 10 and t1' = 20 and ?t2.0 = 300019 and t2' = 300020
      and body = index_body and idx = "mk_index [] []" and e = bare_env
      and ?net2.0 = "Axios_error None ''offline''" and n = "''button''"
      and cbody = "button_body button_file" and cd = button_component and calls = traffic]
  from a h1 have c1: "getFromCache (setCache Map.empty 0 ''registry-index''
        (CachedIndex (mk_index [] []))) 300000 ''registry-index'' = None"
    by (simp only: ttl) simp
  from a miss index_body_parses button_body_parses h2 h1 h3 h4 h5 c1 show ?thesis
    by blast
qed

section \<open>Failures of fetchComponent\<close>

lemma then_parse_Inr: "then_parse r k = Inr v \<Longrightarrow> \<exists>x. r = Inr x \<and> k x = Inr v"
  by (cases r) (simp_all add: then_parse_def)

lemma parse_all_Inr:
  "parse_all p js = Inr vs \<Longrightarrow> j \<in> set js \<Longrightarrow> \<exists>v. p j = Inr v"
proof (induction js arbitrary: vs)
  case Nil
  then show ?case by simp
next
  case (Cons a js)
  from Cons.prems(1) obtain x xs where a: "p a = Inr x" and rest: "parse_all p js = Inr xs"
    by (auto dest!: then_parse_Inr)
  from Cons.prems(2) show ?case
    using a rest Cons.IH by auto
qed

lemma ComponentFileSchema_needs_path_or_name:
  assumes "map_of fo ''path'' = None" and "map_of fo ''name'' = None"
  shows "\<exists>issue. ComponentFileSchema (JObject fo) = Inl issue"
proof (cases "ComponentFileSchema (JObject fo)")
  case (Inl issue)
  then show ?thesis by simp
next
  case (Inr f)
  then have False
    using assms
    by (auto simp: ComponentFileSchema_def opt_string_def truthy_string_def
        dest!: then_parse_Inr split: if_splits)
  then show ?thesis ..
qed

lemma ComponentSchema_files:
  assumes "ComponentSchema (JObject obj) = Inr c"
  shows "req_field (parse_array ComponentFileSchema) obj ''files'' = Inr (files c)"
  using assms unfolding ComponentSchema_def
  by (auto dest!: then_parse_Inr)

lemma ComponentSchema_rejects_bare_file:
  assumes "map_of obj ''files'' = Some (JArray fs)" and "JObject fo \<in> set fs"
    and "map_of fo ''path'' = None" and "map_of fo ''name'' = None"
  shows "\<exists>issue. ComponentSchema (JObject obj) = Inl issue"
proof (cases "ComponentSchema (JObject obj)")
  case (Inl issue)
  then show ?thesis by simp
next
  case (Inr c)
  then have "parse_all ComponentFileSchema fs = Inr (files c)"
    using ComponentSchema_files [OF Inr] assms(1) by (simp add: req_field_def parse_array_def)
  then obtain f where "ComponentFileSchema (JObject fo) = Inr f"
    using parse_all_Inr assms(2) by blast
  with ComponentFileSchema_needs_path_or_name [OF assms(3,4)] show ?thesis by simp
qed

lemma bare_file_rejected:
  "ComponentSchema (button_body [(''content'', JString ''export {}'')])
     = Inl ''Either 'path' or 'name' must be provided''"
  by (simp add: ComponentSchema_def button_body_def
      then_parse_def req_string_def opt_string_def req_field_def opt_field_def
      parse_array_def ComponentFileSchema_def truthy_string_def)

text \<open>
  Claim C5.  On a cache miss, \<open>fetchComponent\<close> fails with the not-found error, whose
  message contains the component name, when the request is rejected with status 404;
  with the fetch error for an axios error with any other status or none; with the parse
  error when the body does not pass \<open>ComponentSchema\<close>, which is the case for every
  body that has, among its \<open>files\<close>, an entry with neither \<open>path\<close> nor \<open>name\<close>; and it
  returns the parsed component when the body passes.
\<close>

theorem fetchComponent_error_classes:
  assumes miss: "getFromCache (cache_of w) t (''component-'' @ n) = None"
  shows
  "fst (fetchComponent e (Axios_error (Some 404) m) t t' n w)
     = Inl (NotFoundError (''Component '' @ [CHR 0x27] @ n @ [CHR 0x27] @ '' not found in registry''))
   \<and> sublist n (''Component '' @ [CHR 0x27] @ n @ [CHR 0x27] @ '' not found in registry'')
   \<and> (st \<noteq> Some 404 \<longrightarrow>
        fst (fetchComponent e (Axios_error st m) t t' n w)
          = Inl (FetchError (''Failed to fetch component '' @ [CHR 0x27] @ n @ [CHR 0x27] @ '': '' @ m)))
   \<and> (ComponentSchema body = Inl issue \<longrightarrow>
        fst (fetchComponent e (Http_ok body) t t' n w)
          = Inl (ParseError (''Failed to parse component '' @ [CHR 0x27] @ n @ [CHR 0x27] @ '': '' @ issue)))
   \<and> (map_of obj ''files'' = Some (JArray fs) \<and> JObject fo \<in> set fs
        \<and> map_of fo ''path'' = None \<and> map_of fo ''name'' = None \<longrightarrow>
        (\<exists>issue'. ComponentSchema (JObject obj) = Inl issue'
           \<and> fst (fetchComponent e (Http_ok (JObject obj)) t t' n w)
               = Inl (ParseError (''Failed to parse component '' @ [CHR 0x27] @ n @ [CHR 0x27] @ '': '' @ issue'))))
   \<and> (ComponentSchema body = Inr c \<longrightarrow>
        fst (fetchComponent e (Http_ok body) t t' n w) = Inr c)"
proof -
  have nf: "fst (fetchComponent e (Axios_error (Some 404) m) t t' n w)
     = Inl (NotFoundError (''Component '' @ [CHR 0x27] @ n @ [CHR 0x27] @ '' not found in registry''))"
    using miss by (simp add: fetchComponent_def Let_def)
  have names: "sublist n (''Component '' @ [CHR 0x27] @ n @ [CHR 0x27] @ '' not found in registry'')"
    by (rule sublist_quoted)
  have fe: "st \<noteq> Some 404 \<longrightarrow>
        fst (fetchComponent e (Axios_error st m) t t' n w)
          = Inl (FetchError (''Failed to fetch component '' @ [CHR 0x27] @ n @ [CHR 0x27] @ '': '' @ m))"
    using miss by (simp add: fetchComponent_def Let_def)
  have pe: "ComponentSchema b = Inl i \<longrightarrow>
        fst (fetchComponent e (Http_ok b) t t' n w)
          = Inl (ParseError (''Failed to parse component '' @ [CHR 0x27] @ n @ [CHR 0x27] @ '': '' @ i))"
    for b i
    using miss by (simp add: fetchComponent_def Let_def)
  have files: "map_of obj ''files'' = Some (JArray fs) \<and> JObject fo \<in> set fs
        \<and> map_of fo ''path'' = None \<and> map_of fo ''name'' = None \<longrightarrow>
        (\<exists>issue'. ComponentSchema (JObject obj) = Inl issue'
           \<and> fst (fetchComponent e (Http_ok (JObject obj)) t t' n w)
               = Inl (ParseError (''Failed to parse component '' @ [CHR 0x27] @ n @ [CHR 0x27] @ '': '' @ issue')))"
    using ComponentSchema_rejects_bare_file [of obj fs fo] pe by blast
  have ok: "ComponentSchema body = Inr c \<longrightarrow>
        fst (fetchComponent e (Http_ok body) t t' n w) = Inr c"
    using miss by (simp add: fetchComponent_def Let_def)
  from nf names fe pe files ok show ?thesis by blast
qed

text \<open>The theorem for the component name \<open>missing\<close> on the empty cache.\<close>

theorem fetchComponent_error_classes_witness:
  "getFromCache (cache_of empty_world) 0 (''component-'' @ ''missing'') = None
   \<and> fst (fetchComponent bare_env (Axios_error (Some 404) ''Request failed with status code 404'')
             0 0 ''missing'' empty_world)
       = Inl (NotFoundError ''Component 'missing' not found in registry'')
   \<and> fst (fetchComponent bare_env (Axios_error (Some 500) ''Request failed with status code 500'')
             0 0 ''missing'' empty_world)
       = Inl (FetchError ''Failed to fetch component 'missing': Request failed with status code 500'')
   \<and> fst (fetchComponent bare_env (Http_ok (button_body [(''content'', JString ''export {}'')]))
             0 0 ''missing'' empty_world)
       = Inl (ParseError ''Failed to parse component 'missing': Either 'path' or 'name' must be provided'')
   \<and> fst (fetchComponent bare_env (Http_ok (button_body button_file)) 0 0 ''missing'' empty_world)
       = Inr button_component"
proof -
  have miss: "getFromCache (cache_of empty_world) 0 (''component-'' @ ''missing'') = None"
    by (simp add: getFromCache_def empty_world_def)
  note inst = fetchComponent_error_classes [OF miss,
      where st = "Some 500" and body = "button_body [(''content'', JString ''export {}'')]"
        and issue = "''Either 'path' or 'name' must be provided''" and e = bare_env and t' = 0]
  note inst2 = fetchComponent_error_classes [OF miss,
      where st = "Some 500" and body = "button_body button_file" and c = button_component
        and e = bare_env and t' = 0]
  show ?thesis
    using miss inst [of "''Request failed with status code 404''"]
      inst [of "''Request failed with status code 500''"] inst2 [of "''x''"]
    by (simp add: bare_file_rejected button_body_parses)
qed

section \<open>Search\<close>

lemma matches_query_spec:
  "matches_query (toLowerCase q) =
     (\<lambda>c. ci_contains (name c) q \<or> ci_contains (title c) q \<or> ci_contains (description c) q)"
  by (rule ext) (simp add: matches_query_def ci_contains_def str_includes_sublist)

lemma results_searchComponents:
  "results (searchComponents idx q cat feat) =
     text_filter_spec q (featured_filter_spec feat
       (category_filter_spec (given cat) (components idx)))"
proof -
  have c: "(if truthy_string cat
            then filter (\<lambda>component. array_includes (categories component) (the cat)) xs
            else xs) = category_filter_spec (given cat) xs" for xs
    by (cases cat) (auto simp: truthy_string_def given_def category_filter_spec_def
        array_includes_def)
  have f: "(case feat of None \<Rightarrow> xs | Some f \<Rightarrow> filter (\<lambda>component. featured component = f) xs)
            = featured_filter_spec feat xs" for xs
    by (simp add: featured_filter_spec_def)
  have t: "(if trim q \<noteq> [] then filter (matches_query (toLowerCase q)) xs else xs)
            = text_filter_spec q xs" for xs
    by (simp add: text_filter_spec_def trim_empty_iff matches_query_spec)
  show ?thesis
    by (simp add: searchComponents_def Let_def c f t)
qed

lemma subseq_text: "subseq (text_filter_spec q xs) xs"
  by (simp add: text_filter_spec_def)
lemma subseq_feat: "subseq (featured_filter_spec f xs) xs"
  by (simp add: featured_filter_spec_def split: option.splits)
lemma subseq_cat: "subseq (category_filter_spec c xs) xs"
  by (simp add: category_filter_spec_def split: option.splits)

text \<open>
  Claim C4, as amended.  For every index, query, optional category and optional featured
  flag, the results of \<open>searchComponents\<close> are the components of the index filtered
  first by membership in the category (if one is given and it is not the empty string),
  then by equality of the featured flag (if one is given), then by the case-insensitive
  substring match of the query on name, title or description, where an empty or
  all-white-space query lets everything through.  \<open>total\<close> is the number of results,
  the results are a subsequence of the index's components (original order, no
  re-ranking), and the search with the empty query and no filter returns all components
  with \<open>total\<close> their number.
\<close>

theorem searchComponents_filter_order:
  "results (searchComponents idx q cat feat) = search_spec idx q (given cat) feat
   \<and> total (searchComponents idx q cat feat) = length (results (searchComponents idx q cat feat))
   \<and> subseq (results (searchComponents idx q cat feat)) (components idx)
   \<and> results (searchComponents idx [] None None) = components idx
   \<and> total (searchComponents idx [] None None) = length (components idx)"
proof -
  have r: "results (searchComponents idx q cat feat) = search_spec idx q (given cat) feat"
    by (simp add: results_searchComponents search_spec_def)
  have t: "total (searchComponents idx q cat feat) = length (results (searchComponents idx q cat feat))"
    by (simp add: searchComponents_def Let_def)
  have s: "subseq (results (searchComponents idx q cat feat)) (components idx)"
    unfolding results_searchComponents
    by (meson subseq_text subseq_feat subseq_cat subseq_order.order_trans)
  have e: "results (searchComponents idx [] None None) = components idx"
    by (simp add: searchComponents_def Let_def trim_def truthy_string_def)
  have e': "total (searchComponents idx [] None None) = length (components idx)"
    by (simp add: searchComponents_def Let_def trim_def truthy_string_def)
  from r t s e e' show ?thesis by blast
qed

text \<open>
  Claim C4 as stated filters by category whenever one is given.  Given the empty string
  as category, \<open>if (category)\<close> skips the filter: on an index whose one component has no
  category the search returns that component, where the filter on the category \<open>""\<close>
  would return nothing.
\<close>

theorem searchComponents_empty_category_counterexample:
  "results (searchComponents untagged_index [] (Some []) None) = [mk_component ''card'' [] False]
   \<and> search_spec untagged_index [] (Some []) None = []"
  by (simp add: searchComponents_def search_spec_def untagged_index_def mk_index_def
      mk_component_def truthy_string_def trim_def text_filter_spec_def
      featured_filter_spec_def category_filter_spec_def)

text \<open>
  A query of no-break spaces and tabs is all white space: the text filter is skipped.
\<close>

lemma searchComponents_nbsp_query:
  "results (searchComponents idx [CHR 0xA0, CHR 0x09] cat feat)
     = results (searchComponents idx [] cat feat)"
  by (simp add: searchComponents_def Let_def trim_def is_js_space_def)

section \<open>Categories\<close>

lemma get_property_update:
  "get_property (AList.update c v m) k = (if k = c then Own v else get_property m k)"
  by (simp add: get_property_def update_conv')

lemma count_or_zero_empty:
  "count_or_zero [] k = (if List.member object_prototype_keys k then NotANumber else Count 0)"
  by (simp add: count_or_zero_def get_property_def)

lemma count_or_zero_bump:
  "count_or_zero (bump_count m c) k
     = (if k = c then plus_one (count_or_zero m k) else count_or_zero m k)"
  by (simp add: bump_count_def count_or_zero_def get_property_update)

lemma count_bump_number:
  "count_or_zero m k = Count a \<Longrightarrow>
   count_or_zero (bump_count m c) k = Count (a + (if k = c then 1 else 0))"
  by (auto simp: count_or_zero_bump plus_one_def)

lemma count_bump_junk:
  "count_or_zero m k = NotANumber \<Longrightarrow> count_or_zero (bump_count m c) k = NotANumber"
  by (auto simp: count_or_zero_bump plus_one_def)

lemma count_fold_cats_number:
  "count_or_zero m k = Count a \<Longrightarrow>
   count_or_zero (fold (\<lambda>cat acc. bump_count acc cat) cats m) k = Count (a + count_list cats k)"
proof (induction cats arbitrary: m a)
  case Nil
  then show ?case by simp
next
  case (Cons c cats)
  from count_bump_number [OF Cons.prems, of c]
  have "count_or_zero (fold (\<lambda>cat acc. bump_count acc cat) cats (bump_count m c)) k
          = Count (a + (if k = c then 1 else 0) + count_list cats k)"
    by (rule Cons.IH)
  then show ?case by auto
qed

lemma count_fold_cats_junk:
  "count_or_zero m k = NotANumber \<Longrightarrow>
   count_or_zero (fold (\<lambda>cat acc. bump_count acc cat) cats m) k = NotANumber"
  by (induction cats arbitrary: m) (simp_all add: count_bump_junk)

lemma count_fold_components_number:
  "count_or_zero m k = Count a \<Longrightarrow>
   count_or_zero
     (fold (\<lambda>component counts. fold (\<lambda>cat acc. bump_count acc cat) (categories component) counts)
        comps m) k
   = Count (a + sum_list (map (\<lambda>c. count_list (categories c) k) comps))"
proof (induction comps arbitrary: m a)
  case Nil
  then show ?case by simp
next
  case (Cons c comps)
  from count_fold_cats_number [OF Cons.prems, of "categories c"]
  have "count_or_zero
     (fold (\<lambda>component counts. fold (\<lambda>cat acc. bump_count acc cat) (categories component) counts)
        comps (fold (\<lambda>cat acc. bump_count acc cat) (categories c) m)) k
   = Count (a + count_list (categories c) k
              + sum_list (map (\<lambda>c. count_list (categories c) k) comps))"
    by (rule Cons.IH)
  then show ?case by (simp add: add.assoc)
qed

lemma count_fold_components_junk:
  "count_or_zero m k = NotANumber \<Longrightarrow>
   count_or_zero
     (fold (\<lambda>component counts. fold (\<lambda>cat acc. bump_count acc cat) (categories component) counts)
        comps m) k
   = NotANumber"
  by (induction comps arbitrary: m) (simp_all add: count_fold_cats_junk)

lemma count_count_categories:
  "count_or_zero (count_categories comps) k
     = (if List.member object_prototype_keys k then NotANumber
        else Count (sum_list (map (\<lambda>c. count_list (categories c) k) comps)))"
proof (cases "List.member object_prototype_keys k")
  case True
  then have "count_or_zero [] k = NotANumber" by (simp add: count_or_zero_empty)
  from count_fold_components_junk [OF this] True show ?thesis
    by (simp add: count_categories_def)
next
  case False
  then have "count_or_zero [] k = Count 0" by (simp add: count_or_zero_empty)
  from count_fold_components_number [OF this] False show ?thesis
    by (simp add: count_categories_def)
qed

lemma keys_fold_update:
  "fst ` set (fold (\<lambda>(key, info) acc. AList.update key (f key info) acc) kvs acc0)
     = fst ` set kvs \<union> fst ` set acc0"
proof (induction kvs arbitrary: acc0)
  case Nil
  show ?case by simp
next
  case (Cons kv kvs)
  obtain key info where kv: "kv = (key, info)" by (cases kv)
  have "fst ` set (fold (\<lambda>(key, info) acc. AList.update key (f key info) acc) (kv # kvs) acc0)
        = fst ` set kvs \<union> fst ` set (AList.update key (f key info) acc0)"
    by (simp add: kv Cons.IH)
  also have "\<dots> = fst ` set (kv # kvs) \<union> fst ` set acc0"
    by (simp add: dom_update kv Un_left_commute)
  finally show ?case .
qed

lemma distinct_fold_update:
  "distinct (map fst acc0) \<Longrightarrow>
   distinct (map fst (fold (\<lambda>(key, info) acc. AList.update key (f key info) acc) kvs acc0))"
  by (induction kvs arbitrary: acc0) (auto simp: distinct_update)

lemma map_of_fold_update:
  "map_of (fold (\<lambda>(key, info) acc. AList.update key (f key info) acc) kvs acc0) k
     = (case map_of (rev kvs) k of None \<Rightarrow> map_of acc0 k | Some info \<Rightarrow> Some (f k info))"
  by (induction kvs arbitrary: acc0) (auto simp: update_conv' split: option.splits)

lemma getCategories_keys:
  "set (map fst (cr_categories (getCategories idx))) = set (map fst (index_categories idx))"
  by (simp add: getCategories_def Let_def keys_fold_update)

lemma getCategories_distinct:
  "distinct (map fst (cr_categories (getCategories idx)))"
  by (simp add: getCategories_def Let_def distinct_fold_update del: distinct_map)

lemma getCategories_total:
  "cr_total (getCategories idx) = card (set (map fst (index_categories idx)))"
proof -
  have "cr_total (getCategories idx) = length (map fst (cr_categories (getCategories idx)))"
    by (simp add: getCategories_def Let_def)
  also have "\<dots> = card (set (map fst (cr_categories (getCategories idx))))"
    using getCategories_distinct [of idx] by (simp only: distinct_card)
  finally show ?thesis by (simp only: getCategories_keys)
qed

lemma getCategories_lookup:
  "map_of (cr_categories (getCategories idx)) k =
     (case map_of (rev (index_categories idx)) k of
        None \<Rightarrow> None
      | Some info \<Rightarrow>
          Some \<lparr> cwc_title = cat_title info, cwc_description = cat_description info,
                 count = (if List.member object_prototype_keys k then NotANumber
                          else Count (sum_list (map (\<lambda>c. count_list (categories c) k)
                                                  (components idx)))) \<rparr>)"
  by (simp add: getCategories_def Let_def map_of_fold_update count_count_categories
      split: option.splits)

lemma count_list_distinct:
  "distinct xs \<Longrightarrow> count_list xs k = (if k \<in> set xs then 1 else 0)"
  by (induction xs) auto

lemma sum_count_distinct:
  "\<forall>c\<in>set comps. distinct (categories c) \<Longrightarrow>
   sum_list (map (\<lambda>c. count_list (categories c) k) comps)
     = length (filter (\<lambda>c. k \<in> set (categories c)) comps)"
  by (induction comps) (auto simp: count_list_distinct)

lemma getCategories_count_distinct:
  assumes "\<forall>c\<in>set (components idx). distinct (categories c)"
    and "k \<notin> set object_prototype_keys"
    and "map_of (cr_categories (getCategories idx)) k = Some r"
  shows "count r = Count (length (filter (\<lambda>c. k \<in> set (categories c)) (components idx)))"
  using assms(2,3) sum_count_distinct [OF assms(1), of k]
  by (auto simp: getCategories_lookup split: option.splits)

text \<open>
  Claim C6 on the code.  \<open>getCategories\<close> counts one for every entry of every
  \<open>categories\<close> array (lemma \<open>getCategories_lookup\<close>), which is the number of components
  listing the key only when no array repeats an entry (lemma
  \<open>getCategories_count_distinct\<close>, for keys that are not names of members of
  \<open>Object.prototype\<close>).  On the index whose single component lists
  \<open>forms\<close> twice, the count of \<open>forms\<close> is 2, and one component lists \<open>forms\<close>.
\<close>

theorem getCategories_duplicate_listing:
  "map_of (cr_categories (getCategories dup_index)) ''forms''
     = Some \<lparr> cwc_title = ''forms'', cwc_description = [], count = Count 2 \<rparr>
   \<and> length (filter (\<lambda>c. ''forms'' \<in> set (categories c)) (components dup_index)) = 1"
  by (simp add: getCategories_lookup dup_index_def mk_index_def mk_component_def mk_category_def
      object_prototype_keys_def)

text \<open>
  A category whose key is the name of a member of \<open>Object.prototype\<close> never gets a
  number as its count, not even 0 when no component lists it.
\<close>

lemma getCategories_prototype_key:
  "map_of (cr_categories (getCategories (mk_index [] [mk_category ''constructor''])))
       ''constructor''
     = Some \<lparr> cwc_title = ''constructor'', cwc_description = [], count = NotANumber \<rparr>"
  by (simp add: getCategories_lookup mk_index_def mk_category_def object_prototype_keys_def)

text \<open>
  Claim C10.  The keys of the dictionary that \<open>getCategories\<close> returns are exactly the
  keys of the index's category dictionary, \<open>total\<close> is their number, and a key that is
  not in the index's category dictionary has no entry in the result, whether or not a
  component lists it.
\<close>

theorem getCategories_key_set:
  "set (map fst (cr_categories (getCategories idx))) = set (map fst (index_categories idx))
   \<and> cr_total (getCategories idx) = card (set (map fst (index_categories idx)))
   \<and> (k \<notin> set (map fst (index_categories idx)) \<longrightarrow>
        map_of (cr_categories (getCategories idx)) k = None)"
proof -
  have "k \<notin> set (map fst (index_categories idx)) \<longrightarrow>
        map_of (cr_categories (getCategories idx)) k = None"
    using getCategories_keys [of idx] by (simp add: map_of_eq_None_iff)
  then show ?thesis
    using getCategories_keys [of idx] getCategories_total [of idx] by blast
qed

text \<open>
  The theorem on an index with a component in the category \<open>ghost\<close>, which the category
  dictionary does not have: the count computed for \<open>ghost\<close> is dropped.
\<close>

theorem getCategories_key_set_witness:
  "''ghost'' \<notin> set (map fst (index_categories ghost_index))
   \<and> ''ghost'' \<in> set (categories (hd (components ghost_index)))
   \<and> map_of (cr_categories (getCategories ghost_index)) ''ghost'' = None
   \<and> cr_total (getCategories ghost_index) = 1"
  using getCategories_key_set [of ghost_index "''ghost''"]
  by (simp add: ghost_index_def mk_index_def mk_component_def mk_category_def)

section \<open>Components of a category, featured components, registry information\<close>

text \<open>
  The components returned are those that list the category, for every category string;
  for a category that is not the name of a member of \<open>Object.prototype\<close>,
  \<open>categoryInfo\<close> is \<open>null\<close> exactly when the category is not a key of the index's
  category dictionary.
\<close>

lemma getComponentsByCategory_components:
  "cc_components (getComponentsByCategory idx c)
     = filter (\<lambda>x. c \<in> set (categories x)) (components idx)
   \<and> cc_total (getComponentsByCategory idx c)
     = length (filter (\<lambda>x. c \<in> set (categories x)) (components idx))"
  by (simp add: getComponentsByCategory_def Let_def array_includes_def)

lemma get_property_undefined:
  "c \<notin> set object_prototype_keys \<Longrightarrow>
   (get_property m c = Undefined) = (c \<notin> fst ` set m)"
  using map_of_eq_None_iff [of m c]
  by (cases "map_of m c") (simp_all add: get_property_def)

lemma getComponentsByCategory_ordinary:
  assumes "c \<notin> set object_prototype_keys"
  shows "(categoryInfo (getComponentsByCategory idx c) = Null)
           = (c \<notin> set (map fst (index_categories idx)))"
proof -
  have "(categoryInfo (getComponentsByCategory idx c) = Null)
          = (get_property (index_categories idx) c = Undefined)"
    by (simp add: getComponentsByCategory_def Let_def or_null_def split: property.splits)
  then show ?thesis
    using get_property_undefined [OF assms, of "index_categories idx"] by simp
qed

text \<open>
  Claim C7 on the code.  \<open>toString\<close> is not a key of the category dictionary of the
  two-component index and no component lists it, yet \<open>categoryInfo\<close> is not \<open>null\<close>:
  the read \<open>registryIndex.categories[category]\<close> finds \<open>Object.prototype.toString\<close>.
  For \<open>nonexistent\<close> the result is \<open>null\<close> and no components, as the claim says.
\<close>

theorem getComponentsByCategory_inherited_member:
  "''toString'' \<notin> set (map fst (index_categories e2e_index))
   \<and> categoryInfo (getComponentsByCategory e2e_index ''toString'') = Member ''toString''
   \<and> categoryInfo (getComponentsByCategory e2e_index ''toString'') \<noteq> Null
   \<and> cc_components (getComponentsByCategory e2e_index ''toString'') = []
   \<and> categoryInfo (getComponentsByCategory e2e_index ''nonexistent'') = Null
   \<and> cc_components (getComponentsByCategory e2e_index ''nonexistent'') = []"
  by (simp add: getComponentsByCategory_def Let_def array_includes_def or_null_def
      get_property_def object_prototype_keys_def e2e_index_def mk_index_def mk_component_def
      mk_category_def)

text \<open>
  Claim C8.  \<open>getRegistryInfo\<close> reports the number of components, the number of
  featured components and the number of keys of the category dictionary, and
  \<open>lastUpdated\<close> is \<open>null\<close> when the index has no \<open>meta\<close> block;
  \<open>getFeaturedComponents\<close> returns the featured components in index order with their
  number.  On the index of the end-to-end scenario the featured components are the
  button alone, with total 1, and the statistics are 2 components, 1 featured,
  2 categories.
\<close>

theorem getRegistryInfo_stats:
  "st_totalComponents (stats (getRegistryInfo idx)) = length (components idx)
   \<and> featuredComponents (stats (getRegistryInfo idx)) = length (filter featured (components idx))
   \<and> categoriesCount (stats (getRegistryInfo idx)) = length (map fst (index_categories idx))
   \<and> (meta idx = None \<longrightarrow> st_lastUpdated (stats (getRegistryInfo idx)) = None)
   \<and> fr_components (getFeaturedComponents idx) = filter featured (components idx)
   \<and> fr_total (getFeaturedComponents idx) = length (filter featured (components idx))
   \<and> fr_components (getFeaturedComponents e2e_index) = [mk_component ''button'' [''action''] True]
   \<and> fr_total (getFeaturedComponents e2e_index) = 1
   \<and> st_totalComponents (stats (getRegistryInfo e2e_index)) = 2
   \<and> featuredComponents (stats (getRegistryInfo e2e_index)) = 1
   \<and> categoriesCount (stats (getRegistryInfo e2e_index)) = 2"
  by (simp add: getRegistryInfo_def getFeaturedComponents_def Let_def e2e_index_def
      mk_index_def mk_component_def mk_category_def)

text \<open>The theorem on the index of the end-to-end scenario, which has no \<open>meta\<close> block.\<close>

theorem getRegistryInfo_stats_witness:
  "meta e2e_index = None \<and> st_lastUpdated (stats (getRegistryInfo e2e_index)) = None"
  using getRegistryInfo_stats [of e2e_index]
  by (simp add: e2e_index_def mk_index_def)

section \<open>Documentation search\<close>

lemma section_matches_spec:
  "map_of DOCS_STRUCTURE s = Some items \<Longrightarrow>
   section_matches (toLowerCase q) s items = section_hits_spec q s"
  by (simp add: section_matches_def section_hits_spec_def ci_contains_def str_includes_sublist)

lemma docs_lookup:
  "map_of DOCS_STRUCTURE ''guides'' = Some guides_items"
  "map_of DOCS_STRUCTURE ''components'' = Some components_items"
  "map_of DOCS_STRUCTURE ''api'' = Some api_items"
  by (simp_all add: DOCS_STRUCTURE_def)

lemma docs_property:
  "get_property DOCS_STRUCTURE ''guides'' = Own guides_items"
  "get_property DOCS_STRUCTURE ''components'' = Own components_items"
  "get_property DOCS_STRUCTURE ''api'' = Own api_items"
  by (simp_all add: get_property_def docs_lookup)

lemma search_all_sections:
  "search_sections (toLowerCase q) (map fst DOCS_STRUCTURE) []
     = Inr (searchDocumentation_spec q None)"
proof -
  have keys: "map fst DOCS_STRUCTURE = [''guides'', ''components'', ''api'']"
    by (simp add: DOCS_STRUCTURE_def)
  show ?thesis
    unfolding keys
    by (simp add: docs_property docs_lookup section_matches_spec searchDocumentation_spec_def)
qed

lemma search_one_section:
  "map_of DOCS_STRUCTURE s = Some items \<Longrightarrow>
   search_sections (toLowerCase q) [s] [] = Inr (searchDocumentation_spec q (Some s))"
  by (simp add: get_property_def section_matches_spec searchDocumentation_spec_def)

text \<open>
  Claim C9, as amended.  For every query, and for a section argument that is absent,
  the empty string, or one of \<open>guides\<close>, \<open>components\<close>, \<open>api\<close>, \<open>searchDocumentation\<close>
  returns the \<open>section/item\<close> strings of the fixed catalog whose item contains the
  query case-insensitively, from the given section alone when a non-empty one is given
  and from all three sections otherwise.  The function has no argument but the query and
  the section and reads nothing but the catalog.
\<close>

theorem searchDocumentation_catalog:
  assumes "sect \<in> {None, Some [], Some ''guides'', Some ''components'', Some ''api''}"
  shows "searchDocumentation q sect = Inr (searchDocumentation_spec q (given sect))"
proof -
  consider "sect = None" | "sect = Some []" | "sect = Some ''guides''"
    | "sect = Some ''components''" | "sect = Some ''api''"
    using assms by auto
  then show ?thesis
  proof cases
    case 1
    then show ?thesis
      by (simp add: searchDocumentation_def Let_def truthy_string_def given_def search_all_sections)
  next
    case 2
    then show ?thesis
      by (simp add: searchDocumentation_def Let_def truthy_string_def given_def search_all_sections)
  next
    case 3
    then show ?thesis
      using search_one_section [OF docs_lookup(1)]
      by (simp add: searchDocumentation_def Let_def truthy_string_def given_def)
  next
    case 4
    then show ?thesis
      using search_one_section [OF docs_lookup(2)]
      by (simp add: searchDocumentation_def Let_def truthy_string_def given_def)
  next
    case 5
    then show ?thesis
      using search_one_section [OF docs_lookup(3)]
      by (simp add: searchDocumentation_def Let_def truthy_string_def given_def)
  qed
qed

lemma toast_lower: "toLowerCase ''toast'' = ''toast''"
  by (simp add: toLowerCase_def toLowerCase_char_def upper_letters_def lower_letters_def)

lemma toast_hits:
  "section_hits_spec ''toast'' ''guides'' = []"
  "section_hits_spec ''toast'' ''components'' = [''components/toast'']"
  "section_hits_spec ''toast'' ''api'' = []"
  by (simp_all add: section_hits_spec_def docs_lookup guides_items_def components_items_def
      api_items_def ci_contains_def toLowerCase_def toLowerCase_char_other
      str_includes_sublist [symmetric])

text \<open>The theorem for the query \<open>toast\<close> in the section \<open>components\<close>.\<close>

theorem searchDocumentation_catalog_witness:
  "Some ''components'' \<in> {None, Some [], Some ''guides'', Some ''components'', Some ''api''}
   \<and> searchDocumentation ''toast'' (Some ''components'') = Inr [''components/toast'']"
  using searchDocumentation_catalog [of "Some ''components''" "''toast''"]
  by (simp add: given_def searchDocumentation_spec_def toast_hits)

text \<open>
  Claim C9 as stated searches only the given section whenever one is supplied.  Given
  the empty string as section, \<open>section ? [section] : Object.keys(DOCS_STRUCTURE)\<close>
  searches all three sections: the query \<open>toast\<close> finds \<open>components/toast\<close>, where a
  search of a section named \<open>""\<close> finds nothing.
\<close>

theorem searchDocumentation_empty_section_counterexample:
  "searchDocumentation ''toast'' (Some []) = Inr [''components/toast'']
   \<and> searchDocumentation_spec ''toast'' (Some []) = []"
proof -
  have "searchDocumentation ''toast'' (Some []) = Inr (searchDocumentation_spec ''toast'' None)"
    by (simp add: searchDocumentation_def Let_def truthy_string_def search_all_sections)
  moreover have "searchDocumentation_spec ''toast'' None = [''components/toast'']"
    by (simp add: searchDocumentation_spec_def toast_hits)
  moreover have "searchDocumentation_spec ''toast'' (Some []) = []"
    by (simp add: searchDocumentation_spec_def section_hits_spec_def DOCS_STRUCTURE_def)
  ultimately show ?thesis by simp
qed

text \<open>
  A non-empty section name outside the catalog makes the function throw instead of
  returning a list.
\<close>

lemma searchDocumentation_unknown_section:
  assumes "s \<noteq> []" and "map_of DOCS_STRUCTURE s = None"
  shows "\<exists>m. searchDocumentation q (Some s) = Inl (TypeError m)"
  using assms
  by (simp add: searchDocumentation_def Let_def truthy_string_def get_property_def)

end
